theory Spec2Isabelle
  imports Complex_Main "HOL-Library.AList" "HOL-Library.Multiset" "HOL-Library.Product_Lexorder"
begin

section \<open>Python values\<close>

text \<open>
  Both scripts are Python.  This section models the part of the language and of its
  standard library that the scripts rely on: double-precision floats, the conversions
  \<^verbatim>\<open>int(s)\<close> and \<^verbatim>\<open>float(s)\<close>, string splitting, \<^verbatim>\<open>pathlib\<close> names and
  number formatting.  Strings are byte strings; file names and arguments are taken to
  be ASCII (Python's extra Unicode digits and spaces are outside the model).
\<close>

subsection \<open>Binary64 floats\<close>

text \<open>
  A Python float is an IEEE 754 binary64 number.  A finite float is represented by the
  rational it denotes; every arithmetic result is rounded to the nearest representable
  number, ties to even, and overflows to an infinity.  The sign of zero is not
  represented: none of the modelled code can observe it.
\<close>

datatype pyfloat = Fin rat | PInf | NInf | NaN

fun bit_length :: "nat \<Rightarrow> nat" where
  "bit_length n = (if n = 0 then 0 else Suc (bit_length (n div 2)))"

declare bit_length.simps [simp del]

definition pow2 :: "int \<Rightarrow> rat" where
  "pow2 k = (if 0 \<le> k then 2 ^ nat k else 1 / 2 ^ nat (- k))"

definition pow10 :: "int \<Rightarrow> rat" where
  "pow10 k = (if 0 \<le> k then 10 ^ nat k else 1 / 10 ^ nat (- k))"

text \<open>\<open>ilog2 a\<close> is \<open>\<lfloor>log\<^sub>2 a\<rfloor>\<close> for a positive rational \<open>a\<close>.\<close>

definition ilog2 :: "rat \<Rightarrow> int" where
  "ilog2 a = (if 1 \<le> a then int (bit_length (nat \<lfloor>a\<rfloor>)) - 1
              else - int (bit_length (nat (\<lceil>1 / a\<rceil> - 1))))"

definition round_half_even_at :: "rat \<Rightarrow> int \<Rightarrow> int" where
  "round_half_even_at x f =
     (if x - of_int f < 1 / 2 then f
      else if 1 / 2 < x - of_int f then f + 1
      else if even f then f else f + 1)"

definition round_half_even :: "rat \<Rightarrow> int" where
  "round_half_even x = round_half_even_at x \<lfloor>x\<rfloor>"

text \<open>
  The unit in the last place of a positive rational \<open>a\<close>: 53 significant bits, and the
  fixed spacing \<open>2\<^sup>-\<^sup>1\<^sup>0\<^sup>7\<^sup>4\<close> in the subnormal range.
\<close>

definition fl_ulp :: "rat \<Rightarrow> rat" where
  "fl_ulp a = pow2 (max (ilog2 a) (- 1022) - 52)"

definition fl_quantize :: "rat \<Rightarrow> rat \<Rightarrow> rat" where
  "fl_quantize a q = of_int (round_half_even (a / q)) * q"

definition fl_pack :: "bool \<Rightarrow> rat \<Rightarrow> pyfloat" where
  "fl_pack neg r =
     (if 2 ^ 1024 \<le> r then (if neg then NInf else PInf)
      else Fin (if neg then - r else r))"

definition fl_round :: "rat \<Rightarrow> pyfloat" where
  "fl_round x =
     (if x = 0 then Fin 0 else fl_pack (x < 0) (fl_quantize \<bar>x\<bar> (fl_ulp \<bar>x\<bar>)))"

text \<open>
  Arithmetic and comparison, with the special cases of IEEE arithmetic.  Python raises
  \<^verbatim>\<open>ZeroDivisionError\<close> on a float division by zero.
\<close>

datatype py_exception =
  ValueError string | TypeError | OverflowError | ZeroDivisionError | KeyError

fun fl_sub :: "pyfloat \<Rightarrow> pyfloat \<Rightarrow> pyfloat" where
  "fl_sub (Fin x) (Fin y) = fl_round (x - y)"
| "fl_sub NaN _ = NaN"
| "fl_sub _ NaN = NaN"
| "fl_sub PInf PInf = NaN"
| "fl_sub NInf NInf = NaN"
| "fl_sub PInf _ = PInf"
| "fl_sub NInf _ = NInf"
| "fl_sub _ PInf = NInf"
| "fl_sub _ NInf = PInf"

definition fl_is_neg :: "pyfloat \<Rightarrow> bool" where
  "fl_is_neg a = (case a of Fin x \<Rightarrow> x < 0 | NInf \<Rightarrow> True | _ \<Rightarrow> False)"

definition fl_inf :: "bool \<Rightarrow> pyfloat" where
  "fl_inf neg = (if neg then NInf else PInf)"

fun fl_mul :: "pyfloat \<Rightarrow> pyfloat \<Rightarrow> pyfloat" where
  "fl_mul (Fin x) (Fin y) = fl_round (x * y)"
| "fl_mul NaN _ = NaN"
| "fl_mul _ NaN = NaN"
| "fl_mul (Fin x) b = (if x = 0 then NaN else fl_inf ((x < 0) \<noteq> fl_is_neg b))"
| "fl_mul a (Fin y) = (if y = 0 then NaN else fl_inf (fl_is_neg a \<noteq> (y < 0)))"
| "fl_mul a b = fl_inf (fl_is_neg a \<noteq> fl_is_neg b)"

fun fl_div :: "pyfloat \<Rightarrow> pyfloat \<Rightarrow> py_exception + pyfloat" where
  "fl_div a (Fin y) =
     (if y = 0 then Inl ZeroDivisionError
      else case a of Fin x \<Rightarrow> Inr (fl_round (x / y))
                   | NaN \<Rightarrow> Inr NaN
                   | _ \<Rightarrow> Inr (fl_inf (fl_is_neg a \<noteq> (y < 0))))"
| "fl_div NaN _ = Inr NaN"
| "fl_div _ NaN = Inr NaN"
| "fl_div (Fin x) _ = Inr (Fin 0)"
| "fl_div _ _ = Inr NaN"

definition fl_abs :: "pyfloat \<Rightarrow> pyfloat" where
  "fl_abs a = (case a of Fin x \<Rightarrow> Fin \<bar>x\<bar> | NInf \<Rightarrow> PInf | _ \<Rightarrow> a)"

fun fl_lt :: "pyfloat \<Rightarrow> pyfloat \<Rightarrow> bool" where
  "fl_lt (Fin x) (Fin y) = (x < y)"
| "fl_lt NaN _ = False"
| "fl_lt _ NaN = False"
| "fl_lt _ NInf = False"
| "fl_lt PInf _ = False"
| "fl_lt _ _ = True"

subsection \<open>Values, and the conversions \<^verbatim>\<open>int(s)\<close> and \<^verbatim>\<open>float(s)\<close>\<close>

datatype pyval = PInt int | PFloat pyfloat | PStr string

text \<open>\<^verbatim>\<open>float(n)\<close> for an \<^verbatim>\<open>int\<close>: correctly rounded, or \<^verbatim>\<open>OverflowError\<close>.\<close>

definition int_to_float :: "int \<Rightarrow> py_exception + pyfloat" where
  "int_to_float n = (case fl_round (of_int n) of Fin x \<Rightarrow> Inr (Fin x) | _ \<Rightarrow> Inl OverflowError)"

definition is_digit :: "char \<Rightarrow> bool" where
  "is_digit c = (48 \<le> (of_char c :: nat) \<and> (of_char c :: nat) \<le> 57)"

definition digit_val :: "char \<Rightarrow> nat" where
  "digit_val c = of_char c - 48"

definition digits_val :: "string \<Rightarrow> nat" where
  "digits_val ds = foldl (\<lambda>a c. 10 * a + digit_val c) 0 ds"

text \<open>
  The characters that \<^verbatim>\<open>int\<close> and \<^verbatim>\<open>float\<close> strip from an ASCII string as white space: tab,
  line feed, vertical tab, form feed, carriage return and space.
\<close>

definition is_space :: "char \<Rightarrow> bool" where
  "is_space c = ((of_char c :: nat) \<in> {9, 10, 11, 12, 13, 32})"

definition strip :: "string \<Rightarrow> string" where
  "strip s = rev (dropWhile is_space (rev (dropWhile is_space s)))"

text \<open>An underscore is accepted only between two digits.\<close>

fun underscores_ok :: "bool \<Rightarrow> string \<Rightarrow> bool" where
  "underscores_ok prev [] = True"
| "underscores_ok prev (c # cs) =
     (if c = CHR ''_''
      then prev \<and> (case cs of [] \<Rightarrow> False | d # _ \<Rightarrow> is_digit d) \<and> underscores_ok False cs
      else underscores_ok (is_digit c) cs)"

definition split_sign :: "string \<Rightarrow> bool \<times> string" where
  "split_sign s =
     (case s of
        [] \<Rightarrow> (False, [])
      | c # cs \<Rightarrow> if c = CHR ''-'' then (True, cs) else if c = CHR ''+'' then (False, cs)
                  else (False, s))"

definition all_digits :: "string \<Rightarrow> bool" where
  "all_digits s = list_all is_digit s"

definition int_body :: "bool \<times> string \<Rightarrow> int option" where
  "int_body p =
     (if snd p \<noteq> [] \<and> all_digits (snd p)
      then Some (if fst p then - int (digits_val (snd p)) else int (digits_val (snd p)))
      else None)"

text \<open>
  \<^verbatim>\<open>int(s)\<close> in base 10; \<open>None\<close> stands for \<^verbatim>\<open>ValueError\<close>.  The limit that recent
  interpreters put on the number of digits (4300 by default) is not modelled.
\<close>

definition py_int :: "string \<Rightarrow> int option" where
  "py_int s =
     (if underscores_ok False (strip s)
      then int_body (split_sign (filter (\<lambda>c. c \<noteq> CHR ''_'') (strip s)))
      else None)"

definition to_lower :: "char \<Rightarrow> char" where
  "to_lower c =
     (case map_of (zip ''ABCDEFGHIJKLMNOPQRSTUVWXYZ'' ''abcdefghijklmnopqrstuvwxyz'') c of
        Some l \<Rightarrow> l
      | None \<Rightarrow> c)"

definition is_exp_mark :: "char \<Rightarrow> bool" where
  "is_exp_mark c = (c = CHR ''e'' \<or> c = CHR ''E'')"

text \<open>The exponent part: empty, or \<^verbatim>\<open>e\<close> followed by an optionally signed digit string.\<close>

definition exp_part :: "string \<Rightarrow> int option" where
  "exp_part r = (case r of [] \<Rightarrow> Some 0 | _ # ds \<Rightarrow> int_body (split_sign ds))"

text \<open>The mantissa: digits with at most one point and at least one digit.\<close>

definition mantissa_part :: "string \<Rightarrow> (nat \<times> nat) option" where
  "mantissa_part m =
     (if all_digits (takeWhile (\<lambda>c. c \<noteq> CHR ''.'') m)
         \<and> all_digits (drop 1 (dropWhile (\<lambda>c. c \<noteq> CHR ''.'') m))
         \<and> filter (\<lambda>c. c \<noteq> CHR ''.'') m \<noteq> []
      then Some (digits_val (filter (\<lambda>c. c \<noteq> CHR ''.'') m),
                 length (drop 1 (dropWhile (\<lambda>c. c \<noteq> CHR ''.'') m)))
      else None)"

definition decimal_value :: "(nat \<times> nat) option \<Rightarrow> int option \<Rightarrow> rat option" where
  "decimal_value m e =
     (case (m, e) of
        (Some (n, k), Some x) \<Rightarrow> Some (of_nat n * pow10 (x - int k))
      | _ \<Rightarrow> None)"

definition decimal_body :: "string \<Rightarrow> rat option" where
  "decimal_body b =
     decimal_value (mantissa_part (takeWhile (\<lambda>c. \<not> is_exp_mark c) b))
                   (exp_part (dropWhile (\<lambda>c. \<not> is_exp_mark c) b))"

definition float_body :: "bool \<times> string \<Rightarrow> pyfloat option" where
  "float_body p =
     (if map to_lower (snd p) = ''inf'' \<or> map to_lower (snd p) = ''infinity''
      then Some (fl_inf (fst p))
      else if map to_lower (snd p) = ''nan'' then Some NaN
      else case decimal_body (snd p) of
             None \<Rightarrow> None
           | Some x \<Rightarrow> Some (fl_round (if fst p then - x else x)))"

text \<open>\<^verbatim>\<open>float(s)\<close>; \<open>None\<close> stands for \<^verbatim>\<open>ValueError\<close>.\<close>

definition py_float :: "string \<Rightarrow> pyfloat option" where
  "py_float s =
     (if underscores_ok False (strip s)
      then float_body (split_sign (filter (\<lambda>c. c \<noteq> CHR ''_'') (strip s)))
      else None)"

subsection \<open>Strings and paths\<close>

text \<open>\<^verbatim>\<open>s.split(c)\<close>: every occurrence of \<open>c\<close> separates two (possibly empty) fields.\<close>

fun split_on :: "char \<Rightarrow> string \<Rightarrow> string list" where
  "split_on c [] = [[]]"
| "split_on c (x # xs) =
     (if x = c then [] # split_on c xs
      else case split_on c xs of [] \<Rightarrow> [[x]] | p # ps \<Rightarrow> (x # p) # ps)"

text \<open>
  \<^verbatim>\<open>Path(p).name\<close> on a POSIX path: the last component, where empty components and
  \<^verbatim>\<open>.\<close> components do not count.
\<close>

definition path_parts :: "string \<Rightarrow> string list" where
  "path_parts p = filter (\<lambda>q. q \<noteq> [] \<and> q \<noteq> ''.'') (split_on CHR ''/'' p)"

definition path_name :: "string \<Rightarrow> string" where
  "path_name p = (if path_parts p = [] then [] else last (path_parts p))"

text \<open>\<^verbatim>\<open>name.rfind('.')\<close>, as the number of characters after the last point.\<close>

definition after_last_dot :: "string \<Rightarrow> nat" where
  "after_last_dot n = length (takeWhile (\<lambda>c. c \<noteq> CHR ''.'') (rev n))"

text \<open>
  \<^verbatim>\<open>Path(p).stem\<close>: the name without its last suffix.  With \<open>i\<close> the index of the last
  point, the suffix is cut when \<open>0 < i < len(name) - 1\<close>.
\<close>

definition stem_of_name :: "string \<Rightarrow> string" where
  "stem_of_name n =
     (if CHR ''.'' \<in> set n \<and> 0 < after_last_dot n \<and> after_last_dot n + 1 < length n
      then take (length n - after_last_dot n - 1) n
      else n)"

definition path_stem :: "string \<Rightarrow> string" where
  "path_stem p = stem_of_name (path_name p)"

section \<open>The checkpoint inspector (\<^verbatim>\<open>verify_performance.py\<close>)\<close>

subsection \<open>\<^verbatim>\<open>extract_metrics_from_checkpoint\<close>\<close>

text \<open>
  A metrics dictionary is an association list in insertion order; \<open>AList.update\<close> is
  Python's item assignment (a key that is present keeps its position).
\<close>

type_synonym metrics = "(string \<times> pyval) list"

text \<open>
  The conversion of one value: \<^verbatim>\<open>float(value) if '.' in value else int(value)\<close>, and the
  string itself when that raises \<^verbatim>\<open>ValueError\<close>.
\<close>

definition coerce_value :: "string \<Rightarrow> pyval" where
  "coerce_value v =
     (if CHR ''.'' \<in> set v
      then (case py_float v of Some f \<Rightarrow> PFloat f | None \<Rightarrow> PStr v)
      else (case py_int v of Some n \<Rightarrow> PInt n | None \<Rightarrow> PStr v))"

text \<open>
  The loop over the parts.  \<^verbatim>\<open>key, value = part.split('=')\<close> raises \<^verbatim>\<open>ValueError\<close> unless
  the part has exactly one \<^verbatim>\<open>=\<close>; that statement is outside the inner \<^verbatim>\<open>try\<close>.
\<close>

fun parse_parts :: "string list \<Rightarrow> metrics \<Rightarrow> py_exception + metrics" where
  "parse_parts [] m = Inr m"
| "parse_parts (part # rest) m =
     (if CHR ''='' \<in> set part
      then (case split_on CHR ''='' part of
              [key, value] \<Rightarrow> parse_parts rest (AList.update key (coerce_value value) m)
            | _ \<Rightarrow> Inl (ValueError ''too many values to unpack (expected 2)''))
      else parse_parts rest m)"

definition exception_text :: "py_exception \<Rightarrow> string" where
  "exception_text e = (case e of ValueError msg \<Rightarrow> msg | _ \<Rightarrow> [])"

text \<open>
  The function returns what it printed and the dictionary.  The outer handler turns any
  exception into a printed message and the empty dictionary.
\<close>

definition extract_metrics_from_checkpoint :: "string \<Rightarrow> string list \<times> metrics" where
  "extract_metrics_from_checkpoint checkpoint_path =
     (case parse_parts (split_on CHR ''-'' (path_stem checkpoint_path)) [] of
        Inr m \<Rightarrow> ([], m)
      | Inl e \<Rightarrow> ([''Error extracting metrics: '' @ exception_text e], []))"

subsection \<open>\<^verbatim>\<open>list_checkpoints\<close>\<close>

text \<open>
  What the file system holds at a path: nothing, something that is not a directory, or a
  directory with the names of its entries in the order in which the scan yields them.
  \<^verbatim>\<open>Path.exists()\<close> holds for the last two; \<^verbatim>\<open>Path.glob\<close> yields entries only for a
  directory.
\<close>

datatype fs_entry = Absent | NotDirectory | Directory "string list"

type_synonym file_system = "string \<Rightarrow> fs_entry"

definition path_exists :: "fs_entry \<Rightarrow> bool" where
  "path_exists e = (e \<noteq> Absent)"

definition ends_with :: "string \<Rightarrow> string \<Rightarrow> bool" where
  "ends_with suf s = (length suf \<le> length s \<and> drop (length s - length suf) s = suf)"

text \<open>\<^verbatim>\<open>glob("*.ckpt")\<close>: the entries whose name ends in \<^verbatim>\<open>.ckpt\<close>.\<close>

definition glob_ckpt :: "fs_entry \<Rightarrow> string list" where
  "glob_ckpt e = (case e of Directory names \<Rightarrow> filter (ends_with ''.ckpt'') names | _ \<Rightarrow> [])"

text \<open>\<^verbatim>\<open>c.join(xs)\<close>.\<close>

fun join_with :: "char \<Rightarrow> string list \<Rightarrow> string" where
  "join_with c [] = []"
| "join_with c [x] = x"
| "join_with c (x # y # ys) = x @ c # join_with c (y # ys)"

text \<open>
  \<^verbatim>\<open>str(Path(d) / name)\<close>: the directory is normalised (repeated separators and \<^verbatim>\<open>.\<close>
  components go away) and the name is appended.
\<close>

definition path_root :: "string \<Rightarrow> string" where
  "path_root p =
     (if take 2 p = ''//'' \<and> take 3 p \<noteq> ''///'' then ''//''
      else if take 1 p = ''/'' then ''/'' else [])"

definition path_str :: "string \<Rightarrow> string" where
  "path_str p = path_root p @ join_with CHR ''/'' (path_parts p)"

definition child_path :: "string \<Rightarrow> string \<Rightarrow> string" where
  "child_path d name =
     (if path_parts d = [] then path_root d @ name else path_str d @ ''/'' @ name)"

record checkpoint =
  filename :: string
  path :: string
  metrics :: metrics

text \<open>One iteration of the loop: the record of a file, and what the extraction printed.\<close>

definition checkpoint_of :: "string \<Rightarrow> string \<Rightarrow> string list \<times> checkpoint" where
  "checkpoint_of d name =
     (fst (extract_metrics_from_checkpoint (child_path d name)),
      \<lparr>filename = name, path = child_path d name,
       metrics = snd (extract_metrics_from_checkpoint (child_path d name))\<rparr>)"

text \<open>
  The sort key: \<^verbatim>\<open>x['metrics'].get('val_loss', float('inf'))\<close>.
\<close>

definition loss_key :: "checkpoint \<Rightarrow> pyval" where
  "loss_key c = (case map_of (metrics c) ''val_loss'' of Some v \<Rightarrow> v | None \<Rightarrow> PFloat PInf)"

text \<open>
  Python's \<^verbatim>\<open><\<close> on keys.  Numbers compare by their exact values, strings
  lexicographically, and a string against a number raises \<^verbatim>\<open>TypeError\<close>.
\<close>

definition is_str :: "pyval \<Rightarrow> bool" where
  "is_str v = (case v of PStr _ \<Rightarrow> True | _ \<Rightarrow> False)"

definition exact_value :: "pyval \<Rightarrow> pyfloat" where
  "exact_value v = (case v of PInt n \<Rightarrow> Fin (of_int n) | PFloat f \<Rightarrow> f | PStr _ \<Rightarrow> NaN)"

fun str_lt :: "string \<Rightarrow> string \<Rightarrow> bool" where
  "str_lt _ [] = False"
| "str_lt [] (y # ys) = True"
| "str_lt (x # xs) (y # ys) =
     ((of_char x :: nat) < of_char y \<or> (x = y \<and> str_lt xs ys))"

fun py_lt :: "pyval \<Rightarrow> pyval \<Rightarrow> py_exception + bool" where
  "py_lt (PStr a) (PStr b) = Inr (str_lt a b)"
| "py_lt (PStr a) _ = Inl TypeError"
| "py_lt _ (PStr b) = Inl TypeError"
| "py_lt a b = Inr (fl_lt (exact_value a) (exact_value b))"

definition key_lt :: "pyval \<Rightarrow> pyval \<Rightarrow> bool" where
  "key_lt a b = (case py_lt a b of Inr r \<Rightarrow> r | Inl _ \<Rightarrow> False)"

text \<open>
  \<^verbatim>\<open>sorted(xs, key=f)\<close> is a stable sort that compares keys with \<^verbatim>\<open><\<close> only.  When every
  two keys are comparable (no \<^verbatim>\<open>nan\<close> among them) its result is the one stable sorted
  arrangement, computed here by insertion.  When strings and numbers both occur among
  the keys, a comparison sort has to compare a string with a number at some point, and
  the \<^verbatim>\<open>TypeError\<close> of that comparison leaves \<^verbatim>\<open>sorted\<close>.
\<close>

fun insert_by_key :: "('a \<Rightarrow> pyval) \<Rightarrow> 'a \<Rightarrow> 'a list \<Rightarrow> 'a list" where
  "insert_by_key f x [] = [x]"
| "insert_by_key f x (y # ys) =
     (if key_lt (f y) (f x) then y # insert_by_key f x ys else x # y # ys)"

definition py_sorted :: "('a \<Rightarrow> pyval) \<Rightarrow> 'a list \<Rightarrow> py_exception + 'a list" where
  "py_sorted f xs =
     (if list_ex (\<lambda>x. is_str (f x)) xs \<and> list_ex (\<lambda>x. \<not> is_str (f x)) xs
      then Inl TypeError
      else Inr (foldr (insert_by_key f) xs []))"

text \<open>
  The function returns what was printed and either the sorted records or the exception
  that leaves it.
\<close>

definition list_checkpoints ::
  "file_system \<Rightarrow> string \<Rightarrow> string list \<times> (py_exception + checkpoint list)" where
  "list_checkpoints fs checkpoint_dir =
     (if \<not> path_exists (fs checkpoint_dir)
      then ([''Checkpoint directory not found: '' @ checkpoint_dir], Inr [])
      else (concat (map (\<lambda>name. fst (checkpoint_of checkpoint_dir name))
                      (glob_ckpt (fs checkpoint_dir))),
            py_sorted loss_key
              (map (\<lambda>name. snd (checkpoint_of checkpoint_dir name))
                 (glob_ckpt (fs checkpoint_dir)))))"

subsection \<open>Printing numbers\<close>

definition digit_char :: "nat \<Rightarrow> char" where
  "digit_char d = ''0123456789'' ! d"

fun str_nat :: "nat \<Rightarrow> string" where
  "str_nat n = (if n < 10 then [digit_char n] else str_nat (n div 10) @ [digit_char (n mod 10)])"

declare str_nat.simps [simp del]

definition str_int :: "int \<Rightarrow> string" where
  "str_int n = (if n < 0 then CHR ''-'' # str_nat (nat (- n)) else str_nat (nat n))"

text \<open>\<^verbatim>\<open>s.ljust(w)\<close>, the padding of the format specification \<^verbatim>\<open><w\<close>.\<close>

definition ljust :: "nat \<Rightarrow> string \<Rightarrow> string" where
  "ljust w s = s @ replicate (w - length s) CHR '' ''"

definition zfill :: "nat \<Rightarrow> string \<Rightarrow> string" where
  "zfill w s = replicate (w - length s) CHR ''0'' @ s"

text \<open>
  The format specifications \<^verbatim>\<open>.pf\<close> and \<^verbatim>\<open>+.pf\<close>: the exact value of the float, rounded
  half-even to \<open>p\<close> decimals.
\<close>

definition fixed_point :: "nat \<Rightarrow> nat \<Rightarrow> string" where
  "fixed_point p n =
     str_nat (n div 10 ^ p) @ (if p = 0 then [] else CHR ''.'' # zfill p (str_nat (n mod 10 ^ p)))"

definition format_f :: "bool \<Rightarrow> nat \<Rightarrow> pyfloat \<Rightarrow> string" where
  "format_f signed p x =
     (case x of
        Fin q \<Rightarrow> (if q < 0 then ''-'' else if signed then ''+'' else [])
                 @ fixed_point p (nat (round_half_even (\<bar>q\<bar> * 10 ^ p)))
      | PInf \<Rightarrow> (if signed then ''+inf'' else ''inf'')
      | NInf \<Rightarrow> ''-inf''
      | NaN \<Rightarrow> (if signed then ''+nan'' else ''nan''))"

text \<open>
  \<^verbatim>\<open>str(v)\<close>.  The text of a float (its shortest representation that reads back as the
  same float) is a parameter \<open>float_repr\<close> of the functions that print one.
\<close>

definition py_str :: "(pyfloat \<Rightarrow> string) \<Rightarrow> pyval \<Rightarrow> string" where
  "py_str float_repr v = (case v of PInt n \<Rightarrow> str_int n | PFloat f \<Rightarrow> float_repr f | PStr s \<Rightarrow> s)"

text \<open>
  Characters outside ASCII, as the bytes of their UTF-8 encoding, and the line of 80
  equals signs.
\<close>

definition check_mark :: string where
  "check_mark = [CHR 0xE2, CHR 0x9C, CHR 0x93]"

definition warn_mark :: string where
  "warn_mark = [CHR 0xE2, CHR 0x9A, CHR 0xA0]"

definition bullet :: string where
  "bullet = [CHR 0xE2, CHR 0x80, CHR 0xA2]"

definition plus_minus :: string where
  "plus_minus = [CHR 0xC2, CHR 0xB1]"

definition nl :: string where
  "nl = [CHR 0x0A]"

definition rule_line :: "nat \<Rightarrow> char \<Rightarrow> string" where
  "rule_line n c = replicate n c"

subsection \<open>Arithmetic on metric values\<close>

text \<open>
  The operand of a float operation: \<^verbatim>\<open>int\<close> is converted, a string makes the operation
  raise \<^verbatim>\<open>TypeError\<close>.
\<close>

definition float_operand :: "pyval \<Rightarrow> py_exception + pyfloat" where
  "float_operand v =
     (case v of PInt n \<Rightarrow> int_to_float n | PFloat f \<Rightarrow> Inr f | PStr _ \<Rightarrow> Inl TypeError)"

text \<open>\<^verbatim>\<open>diff = actual - expected\<close> and \<^verbatim>\<open>diff_pct = (diff / expected) * 100\<close>.\<close>

definition difference :: "pyval \<Rightarrow> pyfloat \<Rightarrow> py_exception + pyfloat" where
  "difference actual expected =
     (case float_operand actual of Inl e \<Rightarrow> Inl e | Inr a \<Rightarrow> Inr (fl_sub a expected))"

definition percentage :: "pyfloat \<Rightarrow> pyfloat \<Rightarrow> py_exception + pyfloat" where
  "percentage diff expected =
     (case fl_div diff expected of Inl e \<Rightarrow> Inl e | Inr q \<Rightarrow> Inr (fl_mul q (Fin 100)))"

definition is_number :: "pyval option \<Rightarrow> bool" where
  "is_number r = (case r of Some (PInt _) \<Rightarrow> True | Some (PFloat _) \<Rightarrow> True | _ \<Rightarrow> False)"

text \<open>
  Output and outcome of a piece of code: what it printed, and the exception that left it
  or its result.  \<open>in_sequence\<close> runs pieces one after the other up to the first
  exception.
\<close>

type_synonym 'a run = "string list \<times> (py_exception + 'a)"

fun in_sequence :: "unit run list \<Rightarrow> unit run" where
  "in_sequence [] = ([], Inr ())"
| "in_sequence ((out, Inl e) # rest) = (out, Inl e)"
| "in_sequence ((out, Inr _) # rest) = (out @ fst (in_sequence rest), snd (in_sequence rest))"

definition prints :: "string list \<Rightarrow> unit run" where
  "prints out = (out, Inr ())"

subsection \<open>\<^verbatim>\<open>print_comparison_table\<close>\<close>

text \<open>
  The argument maps environment names to metric dictionaries.  One row of the table:
  \<^verbatim>\<open>your_result = environments.get('docker', {}).get(key, 'N/A')\<close>, the difference to the
  expected value when the result is a number, and the formatted line.
\<close>

definition table_metrics :: "(string \<times> pyfloat \<times> string) list" where
  "table_metrics =
     [(''Validation Loss'', fl_round (350 / 1000), ''val_loss''),
      (''Accuracy'', fl_round (846 / 1000), ''accuracy''),
      (''F1 Score'', fl_round (893 / 1000), ''f1'')]"

definition table_line :: "string \<Rightarrow> pyfloat \<Rightarrow> string \<Rightarrow> string \<Rightarrow> string" where
  "table_line metric_name expected your_result diff_str =
     ljust 20 metric_name @ '' | '' @ ljust 15 (format_f False 4 expected) @ '' | ''
       @ ljust 15 your_result @ '' | '' @ ljust 15 diff_str"

definition table_row ::
  "(pyfloat \<Rightarrow> string) \<Rightarrow> metrics \<Rightarrow> string \<times> pyfloat \<times> string \<Rightarrow> unit run" where
  "table_row float_repr docker row =
     (case row of (metric_name, expected, key) \<Rightarrow>
        if is_number (map_of docker key)
        then (case difference (the (map_of docker key)) expected of
                Inl e \<Rightarrow> ([], Inl e)
              | Inr diff \<Rightarrow>
                  (case percentage diff expected of
                     Inl e \<Rightarrow> ([], Inl e)
                   | Inr diff_pct \<Rightarrow>
                       prints [table_line metric_name expected
                                 (py_str float_repr (the (map_of docker key)))
                                 (format_f True 4 diff @ '' ('' @ format_f True 1 diff_pct @ ''%)'')]))
        else prints [table_line metric_name expected
                       (case map_of docker key of None \<Rightarrow> ''N/A'' | Some v \<Rightarrow> py_str float_repr v)
                       ''N/A''])"

definition print_comparison_table ::
  "(pyfloat \<Rightarrow> string) \<Rightarrow> (string \<rightharpoonup> metrics) \<Rightarrow> unit run" where
  "print_comparison_table float_repr environments =
     in_sequence
       ([prints [nl @ rule_line 80 CHR ''='',
                 ''PERFORMANCE COMPARISON ACROSS ENVIRONMENTS'',
                 rule_line 80 CHR ''='' @ nl,
                 ljust 20 ''Metric'' @ '' | '' @ ljust 15 ''Expected'' @ '' | ''
                   @ ljust 15 ''Your Result'' @ '' | '' @ ljust 15 ''Difference'',
                 rule_line 80 CHR ''-'']]
        @ map (table_row float_repr
                 (case environments ''docker'' of None \<Rightarrow> [] | Some d \<Rightarrow> d))
            table_metrics
        @ [prints [rule_line 80 CHR ''-'', nl]])"

subsection \<open>\<^verbatim>\<open>analyze_wandb_results\<close>\<close>

definition analyze_wandb_results :: "string \<Rightarrow> unit run" where
  "analyze_wandb_results project_name =
     prints
       [nl @ rule_line 80 CHR ''='',
        ''W&B VERIFICATION CHECKLIST'',
        rule_line 80 CHR ''='' @ nl,
        check_mark @ '' Visit your W&B project: https://wandb.ai/'',
        check_mark @ '' Look for project: '' @ project_name,
        check_mark @ '' Find run: best-hyperparams-docker'' @ nl,
        ''Check the following metrics:'',
        ''  1. Final validation loss: Should be ~0.35-0.41'',
        ''  2. Accuracy: Should be ~84-85%'',
        ''  3. F1 Score: Should be ~0.89-0.90'',
        ''  4. Training completed: All 3 epochs'',
        ''  5. Loss curves: Smooth downward trend'' @ nl,
        ''Compare with local results:'',
        ''  '' @ bullet @ '' Check if metrics are within '' @ plus_minus @ ''2% of each other'',
        ''  '' @ bullet @ '' Loss curves should follow similar patterns'',
        ''  '' @ bullet @ '' Training time will differ (CPU vs GPU)'',
        ''  '' @ bullet @ '' Exact numerical values may vary slightly due to:'',
        ''    - Different hardware (CPU vs GPU precision)'',
        ''    - Library version differences'',
        ''    - Floating-point arithmetic variations'' @ nl,
        rule_line 80 CHR ''='' @ nl]"

subsection \<open>\<^verbatim>\<open>main\<close>\<close>

text \<open>The expected results, in the order of the dictionary literal.\<close>

definition expected_results :: "(string \<times> pyfloat) list" where
  "expected_results =
     [(''val_loss'', fl_round (3504 / 10000)),
      (''accuracy'', fl_round (846 / 1000)),
      (''f1'', fl_round (893 / 1000))]"

text \<open>
  One iteration of the comparison loop: the arithmetic is done only when
  \<^verbatim>\<open>isinstance(actual, (int, float))\<close> holds.
\<close>

definition comparison_line :: "string \<Rightarrow> pyfloat \<Rightarrow> pyfloat \<Rightarrow> pyfloat \<Rightarrow> pyfloat \<Rightarrow> string" where
  "comparison_line metric actual expected diff diff_pct =
     (if fl_lt (fl_abs diff_pct) (Fin 2) then check_mark else warn_mark)
       @ '' '' @ metric @ '': '' @ format_f False 4 actual
       @ '' (expected: '' @ format_f False 4 expected
       @ '', diff: '' @ format_f True 4 diff @ '' / '' @ format_f True 1 diff_pct @ ''%)''"

definition compare_metric :: "metrics \<Rightarrow> string \<times> pyfloat \<Rightarrow> unit run" where
  "compare_metric docker_results item =
     (case item of (metric, expected) \<Rightarrow>
        if is_number (map_of docker_results metric)
        then (case float_operand (the (map_of docker_results metric)) of
                Inl e \<Rightarrow> ([], Inl e)
              | Inr actual \<Rightarrow>
                  (case percentage (fl_sub actual expected) expected of
                     Inl e \<Rightarrow> ([], Inl e)
                   | Inr diff_pct \<Rightarrow>
                       prints [comparison_line metric actual expected
                                 (fl_sub actual expected) diff_pct]))
        else prints [warn_mark @ '' '' @ metric @ '': Not found in checkpoint name''])"

text \<open>
  The verdict.  The list comprehension computes
  \<^verbatim>\<open>abs((docker_results[m] - expected_results[m]) / expected_results[m] * 100)\<close> for every
  expected metric; the guard before it checks only that the keys are present.
\<close>

datatype verdict = Excellent | Good | Notice | Unverified

definition deviation :: "metrics \<Rightarrow> string \<times> pyfloat \<Rightarrow> py_exception + pyfloat" where
  "deviation docker_results item =
     (case item of (m, expected) \<Rightarrow>
        (case map_of docker_results m of
           None \<Rightarrow> Inl KeyError
         | Some v \<Rightarrow>
             (case difference v expected of
                Inl e \<Rightarrow> Inl e
              | Inr diff \<Rightarrow>
                  (case percentage diff expected of
                     Inl e \<Rightarrow> Inl e
                   | Inr diff_pct \<Rightarrow> Inr (fl_abs diff_pct)))))"

fun deviations :: "metrics \<Rightarrow> (string \<times> pyfloat) list \<Rightarrow> py_exception + pyfloat list" where
  "deviations docker_results [] = Inr []"
| "deviations docker_results (item # items) =
     (case deviation docker_results item of
        Inl e \<Rightarrow> Inl e
      | Inr d \<Rightarrow> (case deviations docker_results items of
                    Inl e \<Rightarrow> Inl e
                  | Inr ds \<Rightarrow> Inr (d # ds)))"

definition classify :: "pyfloat list \<Rightarrow> verdict" where
  "classify ds =
     (if list_all (\<lambda>d. fl_lt d (Fin 2)) ds then Excellent
      else if list_all (\<lambda>d. fl_lt d (Fin 5)) ds then Good
      else Notice)"

definition verdict_of :: "metrics \<Rightarrow> py_exception + verdict" where
  "verdict_of docker_results =
     (if list_all (\<lambda>item. map_of docker_results (fst item) \<noteq> None) expected_results
      then (case deviations docker_results expected_results of
              Inl e \<Rightarrow> Inl e
            | Inr ds \<Rightarrow> Inr (classify ds))
      else Inr Unverified)"

definition verdict_text :: "verdict \<Rightarrow> string list" where
  "verdict_text v =
     (case v of
        Excellent \<Rightarrow>
          [check_mark @ '' '' @ check_mark @ '' '' @ check_mark
             @ '' EXCELLENT! Results are highly consistent with local training.'',
           ''      Performance is within 2% tolerance.'']
      | Good \<Rightarrow>
          [check_mark @ '' '' @ check_mark @ ''  GOOD! Results are reasonably consistent.'',
           ''     Small variations are normal due to hardware differences.'']
      | Notice \<Rightarrow>
          [warn_mark @ ''  NOTICE: Results show some variation.'',
           ''   This may be due to CPU vs GPU differences or library versions.'']
      | Unverified \<Rightarrow>
          [warn_mark @ ''  Could not verify all metrics from checkpoint filename.'',
           ''   Check W&B dashboard for complete results.''])"

definition print_verdict :: "metrics \<Rightarrow> unit run" where
  "print_verdict docker_results =
     (case verdict_of docker_results of
        Inl e \<Rightarrow> ([nl @ ''Verdict:''], Inl e)
      | Inr v \<Rightarrow> prints ((nl @ ''Verdict:'') # verdict_text v))"

text \<open>The display of one checkpoint: its number and name, its metrics, an empty line.\<close>

definition show_checkpoint :: "(pyfloat \<Rightarrow> string) \<Rightarrow> nat \<times> checkpoint \<Rightarrow> string list" where
  "show_checkpoint float_repr item =
     (str_nat (fst item) @ ''. '' @ filename (snd item))
     # map (\<lambda>kv. ''   '' @ fst kv @ '': '' @ py_str float_repr (snd kv)) (metrics (snd item))
     @ [[]]"

definition best_checkpoint_analysis :: "checkpoint \<Rightarrow> unit run" where
  "best_checkpoint_analysis best =
     in_sequence
       ([prints [''Best checkpoint: '' @ filename best,
                 nl @ ''Performance Comparison:'',
                 rule_line 50 CHR ''-'']]
        @ map (compare_metric (metrics best)) expected_results
        @ [prints [rule_line 50 CHR ''-''],
           print_verdict (metrics best)])"

definition next_steps :: "string list" where
  "next_steps =
     [nl @ rule_line 80 CHR ''='',
      ''Next Steps:'',
      rule_line 80 CHR ''='',
      ''1. Check your W&B dashboard for detailed metrics and visualizations'',
      ''2. Compare loss curves between local and Docker runs'',
      ''3. Verify that hyperparameters match across environments'',
      ''4. Document any performance differences in your report'',
      ''5. Consider running on GitHub Codespaces or Docker Playground for cloud comparison'',
      nl]"

text \<open>
  The part of \<^verbatim>\<open>main\<close> after the call of \<open>list_checkpoints\<close>, for the list it returned.
\<close>

definition report :: "(pyfloat \<Rightarrow> string) \<Rightarrow> checkpoint list \<Rightarrow> unit run" where
  "report float_repr checkpoints =
     (case checkpoints of
        [] \<Rightarrow>
          prints [warn_mark @ '' No checkpoints found. Have you run training yet?'',
                  ''  Run: .'' @ [CHR 0x5C] @ ''docker_run_wandb.ps1'' @ nl]
      | best # _ \<Rightarrow>
          in_sequence
            [prints [''Found '' @ str_nat (length checkpoints) @ '' checkpoint(s):'' @ nl],
             prints (concat (map (show_checkpoint float_repr)
                               (zip [1 ..< Suc (length checkpoints)] checkpoints))),
             best_checkpoint_analysis best,
             analyze_wandb_results ''glue-docker-training'',
             prints next_steps])"

text \<open>
  \<^verbatim>\<open>main\<close> reads the directory \<^verbatim>\<open>checkpoints\<close>.  An exception that leaves
  \<open>list_checkpoints\<close> or the report leaves \<^verbatim>\<open>main\<close>, and the interpreter then ends
  with status 1; when \<^verbatim>\<open>main\<close> returns, the status is 0.
\<close>

definition main :: "(pyfloat \<Rightarrow> string) \<Rightarrow> file_system \<Rightarrow> unit run" where
  "main float_repr fs =
     (case snd (list_checkpoints fs ''checkpoints'') of
        Inl e \<Rightarrow>
          ([nl @ rule_line 80 CHR ''='',
            ''MLOPS PROJECT 2 - PERFORMANCE VERIFICATION'',
            rule_line 80 CHR ''='' @ nl,
            ''Analyzing checkpoints...'' @ nl]
           @ fst (list_checkpoints fs ''checkpoints''), Inl e)
      | Inr checkpoints \<Rightarrow>
          in_sequence
            [prints ([nl @ rule_line 80 CHR ''='',
                      ''MLOPS PROJECT 2 - PERFORMANCE VERIFICATION'',
                      rule_line 80 CHR ''='' @ nl,
                      ''Analyzing checkpoints...'' @ nl]
                     @ fst (list_checkpoints fs ''checkpoints'')),
             report float_repr checkpoints])"

definition exit_status :: "unit run \<Rightarrow> nat" where
  "exit_status r = (case snd r of Inl _ \<Rightarrow> 1 | Inr _ \<Rightarrow> 0)"

section \<open>The training script (\<^verbatim>\<open>train.py\<close>)\<close>

subsection \<open>\<^verbatim>\<open>parse_args\<close>\<close>

text \<open>The namespace that \<^verbatim>\<open>parse_args\<close> returns, with the declared defaults.\<close>

record args =
  model_name_or_path :: string
  task_name :: string
  learning_rate :: pyfloat
  epochs :: int
  train_batch_size :: int
  eval_batch_size :: int
  max_seq_length :: int
  warmup_steps :: int
  weight_decay :: pyfloat
  checkpoint_dir :: string
  wandb_project :: string
  wandb_run_name :: "string option"
  seed :: int
  accelerator :: string
  devices :: int

definition default_args :: args where
  "default_args =
     \<lparr>model_name_or_path = ''distilbert-base-uncased'',
      task_name = ''mrpc'',
      learning_rate = fl_round (2 / 100000),
      epochs = 3,
      train_batch_size = 32,
      eval_batch_size = 32,
      max_seq_length = 128,
      warmup_steps = 0,
      weight_decay = Fin 0,
      checkpoint_dir = ''checkpoints'',
      wandb_project = ''glue-finetuning'',
      wandb_run_name = None,
      seed = 42,
      accelerator = ''auto'',
      devices = 1\<rparr>"

definition task_choices :: "string list" where
  "task_choices =
     [''cola'', ''sst2'', ''mrpc'', ''qqp'', ''stsb'', ''mnli'', ''qnli'', ''rte'', ''wnli'']"

text \<open>
  The destinations of the declared options, the actions, and the option strings in the
  order of their registration (the parser adds \<^verbatim>\<open>-h\<close> and \<^verbatim>\<open>--help\<close> itself).
\<close>

datatype dest =
  Model_name_or_path | Task_name | Learning_rate | Epochs | Train_batch_size
  | Eval_batch_size | Max_seq_length | Warmup_steps | Weight_decay | Checkpoint_dir
  | Wandb_project | Wandb_run_name | Seed | Accelerator | Devices

datatype action = Help | Store dest

definition option_strings :: "(string \<times> action) list" where
  "option_strings =
     [(''-h'', Help), (''--help'', Help),
      (''--model_name_or_path'', Store Model_name_or_path),
      (''--task_name'', Store Task_name),
      (''--lr'', Store Learning_rate), (''--learning_rate'', Store Learning_rate),
      (''--epochs'', Store Epochs),
      (''--train_batch_size'', Store Train_batch_size),
      (''--eval_batch_size'', Store Eval_batch_size),
      (''--max_seq_length'', Store Max_seq_length),
      (''--warmup_steps'', Store Warmup_steps),
      (''--weight_decay'', Store Weight_decay),
      (''--checkpoint_dir'', Store Checkpoint_dir),
      (''--wandb_project'', Store Wandb_project),
      (''--wandb_run_name'', Store Wandb_run_name),
      (''--seed'', Store Seed),
      (''--accelerator'', Store Accelerator),
      (''--devices'', Store Devices)]"

text \<open>
  The store action: the conversion by the option's \<^verbatim>\<open>type\<close>, then the check against
  \<^verbatim>\<open>choices\<close>.  \<open>None\<close> is the error of the parser.
\<close>

definition store_int :: "string \<Rightarrow> (int \<Rightarrow> args) \<Rightarrow> args option" where
  "store_int v f = (case py_int v of None \<Rightarrow> None | Some n \<Rightarrow> Some (f n))"

definition store_float :: "string \<Rightarrow> (pyfloat \<Rightarrow> args) \<Rightarrow> args option" where
  "store_float v f = (case py_float v of None \<Rightarrow> None | Some x \<Rightarrow> Some (f x))"

fun store :: "dest \<Rightarrow> string \<Rightarrow> args \<Rightarrow> args option" where
  "store Model_name_or_path v a = Some (a\<lparr>model_name_or_path := v\<rparr>)"
| "store Task_name v a = (if v \<in> set task_choices then Some (a\<lparr>task_name := v\<rparr>) else None)"
| "store Learning_rate v a = store_float v (\<lambda>x. a\<lparr>learning_rate := x\<rparr>)"
| "store Epochs v a = store_int v (\<lambda>n. a\<lparr>epochs := n\<rparr>)"
| "store Train_batch_size v a = store_int v (\<lambda>n. a\<lparr>train_batch_size := n\<rparr>)"
| "store Eval_batch_size v a = store_int v (\<lambda>n. a\<lparr>eval_batch_size := n\<rparr>)"
| "store Max_seq_length v a = store_int v (\<lambda>n. a\<lparr>max_seq_length := n\<rparr>)"
| "store Warmup_steps v a = store_int v (\<lambda>n. a\<lparr>warmup_steps := n\<rparr>)"
| "store Weight_decay v a = store_float v (\<lambda>x. a\<lparr>weight_decay := x\<rparr>)"
| "store Checkpoint_dir v a = Some (a\<lparr>checkpoint_dir := v\<rparr>)"
| "store Wandb_project v a = Some (a\<lparr>wandb_project := v\<rparr>)"
| "store Wandb_run_name v a = Some (a\<lparr>wandb_run_name := Some v\<rparr>)"
| "store Seed v a = store_int v (\<lambda>n. a\<lparr>seed := n\<rparr>)"
| "store Accelerator v a = Some (a\<lparr>accelerator := v\<rparr>)"
| "store Devices v a = store_int v (\<lambda>n. a\<lparr>devices := n\<rparr>)"

text \<open>
  The classification of one command-line string by \<^verbatim>\<open>_parse_optional\<close> of \<^verbatim>\<open>argparse\<close> (as
  in CPython 3.11.10 and 3.12.3): an exact option string; an option string followed by
  \<^verbatim>\<open>=\<close> and a value; an abbreviation, which has to match a single option string; a
  string that does not start with \<^verbatim>\<open>-\<close>, the string \<^verbatim>\<open>-\<close>, a negative number or a string
  with a space, which are arguments; anything else is an option that the parser does not
  know.  An option carries what the tuple of \<^verbatim>\<open>_parse_optional\<close> holds: the action, the
  option string that matched, the separator and the explicit argument.
\<close>

datatype token =
  Argument | Option action string "string option" "string option" | Ambiguous | Unknown

definition starts_with :: "string \<Rightarrow> string \<Rightarrow> bool" where
  "starts_with pre s = (take (length pre) s = pre)"

definition before_equals :: "string \<Rightarrow> string" where
  "before_equals s = takeWhile (\<lambda>c. c \<noteq> CHR ''='') s"

definition after_equals :: "string \<Rightarrow> string option" where
  "after_equals s =
     (if CHR ''='' \<in> set s then Some (drop 1 (dropWhile (\<lambda>c. c \<noteq> CHR ''='') s)) else None)"

definition separator :: "string \<Rightarrow> string option" where
  "separator s = (if CHR ''='' \<in> set s then Some ''='' else None)"

text \<open>
  The pattern \<^verbatim>\<open>^-\d+$|^-\d*\.\d+$\<close> of negative numbers; \<^verbatim>\<open>$\<close> also matches before a
  line feed that ends the string.
\<close>

definition negative_body :: "string \<Rightarrow> bool" where
  "negative_body s =
     (case s of
        [] \<Rightarrow> False
      | c # r \<Rightarrow> c = CHR ''-'' \<and>
          ((r \<noteq> [] \<and> all_digits r)
           \<or> (all_digits (takeWhile (\<lambda>c. c \<noteq> CHR ''.'') r)
               \<and> CHR ''.'' \<in> set r
               \<and> drop 1 (dropWhile (\<lambda>c. c \<noteq> CHR ''.'') r) \<noteq> []
               \<and> all_digits (drop 1 (dropWhile (\<lambda>c. c \<noteq> CHR ''.'') r)))))"

definition negative_number :: "string \<Rightarrow> bool" where
  "negative_number s =
     (negative_body s \<or> (s \<noteq> [] \<and> last s = CHR 0x0A \<and> negative_body (butlast s)))"

text \<open>
  The option strings that a string abbreviates (\<^verbatim>\<open>_get_option_tuples\<close>).  A string with
  two dashes matches the option strings that start with its part before \<^verbatim>\<open>=\<close>; a string
  with one dash matches an option string equal to its first two characters (the rest is
  then an explicit argument, with an empty separator) and the option strings that start
  with it.
\<close>

definition option_matches :: "string \<Rightarrow> (action \<times> string \<times> string option \<times> string option) list" where
  "option_matches s =
     (if starts_with ''--'' s
      then map (\<lambda>p. (snd p, fst p, separator s, after_equals s))
             (filter (\<lambda>p. starts_with (before_equals s) (fst p)) option_strings)
      else concat (map (\<lambda>p. if fst p = take 2 s then [(snd p, fst p, Some [], Some (drop 2 s))]
                             else if starts_with s (fst p) then [(snd p, fst p, None, None)]
                             else [])
                     option_strings))"

definition parse_optional :: "string \<Rightarrow> token" where
  "parse_optional s =
     (if s = [] \<or> take 1 s \<noteq> ''-'' then Argument
      else case map_of option_strings s of
        Some act \<Rightarrow> Option act s None None
      | None \<Rightarrow>
          if length s = 1 then Argument
          else case (if CHR ''='' \<in> set s then map_of option_strings (before_equals s) else None) of
            Some act \<Rightarrow> Option act (before_equals s) (Some ''='') (after_equals s)
          | None \<Rightarrow>
              (case option_matches s of
                 [] \<Rightarrow> if negative_number s \<or> CHR '' '' \<in> set s then Argument else Unknown
               | [m] \<Rightarrow> Option (fst m) (fst (snd m)) (fst (snd (snd m))) (snd (snd (snd m)))
               | _ \<Rightarrow> Ambiguous))"

text \<open>
  The loop of \<^verbatim>\<open>consume_optional\<close> for \<^verbatim>\<open>-h\<close> with an explicit argument glued to it (the
  separator is empty), as in \<^verbatim>\<open>-hx\<close>.  The help action takes no argument, so the
  characters are read as further one-letter options: a dash is refused as an ignored
  explicit argument; \<^verbatim>\<open>h\<close> is the help option again, and what follows it is its explicit
  argument, which is refused when it starts with \<^verbatim>\<open>=\<close>; any other character is no option
  string, it goes to the strings that are left over and the loop ends.  When the loop
  ends without an error, the actions collected are taken, the first of which prints the
  help.  The result is the exit status.
\<close>

fun glued_flags :: "string \<Rightarrow> nat" where
  "glued_flags [] = 0"
| "glued_flags (c # e) =
     (if c = CHR ''-'' then 2
      else if c = CHR ''h'' then (if take 1 e = ''='' then 2 else glued_flags e)
      else 0)"

text \<open>
  The loop over the command line.  The result is the namespace, or the status with which
  the parser ends the process: 2 after an error message, 0 after the help text.  The flag
  records that a string was left over (an argument where none is declared, or an unknown
  option), which is reported when the end of the command line is reached.  An option
  that stores a value takes its explicit argument or else the next string, which has to
  be an argument and not \<^verbatim>\<open>--\<close>.  The help option prints the help when it has no explicit
  argument; an explicit argument is an error, except after \<^verbatim>\<open>-h\<close> with an empty separator.
  After \<^verbatim>\<open>--\<close> every string is an argument: no action is taken any more, and since no
  positional argument is declared, \<^verbatim>\<open>--\<close> and the strings after it are left over.
\<close>

fun consume :: "string list \<Rightarrow> bool \<Rightarrow> args \<Rightarrow> nat + args" where
  "consume [] leftover a = (if leftover then Inl 2 else Inr a)"
| "consume (s # rest) leftover a =
     (if s = ''--'' then Inl 2
      else case parse_optional s of
        Argument \<Rightarrow> consume rest True a
      | Unknown \<Rightarrow> consume rest True a
      | Ambiguous \<Rightarrow> Inl 2
      | Option Help os sep None \<Rightarrow> Inl 0
      | Option Help os sep (Some e) \<Rightarrow>
          (if os = ''-h'' \<and> e \<noteq> [] \<and> sep = Some [] then Inl (glued_flags e) else Inl 2)
      | Option (Store d) os sep (Some v) \<Rightarrow>
          (case store d v a of None \<Rightarrow> Inl 2 | Some a' \<Rightarrow> consume rest leftover a')
      | Option (Store d) os sep None \<Rightarrow>
          (case rest of
             [] \<Rightarrow> Inl 2
           | v # rest' \<Rightarrow>
               if v \<noteq> ''--'' \<and> parse_optional v = Argument
               then (case store d v a of None \<Rightarrow> Inl 2 | Some a' \<Rightarrow> consume rest' leftover a')
               else Inl 2))"

text \<open>
  Every string before the first \<^verbatim>\<open>--\<close> is classified before any action is taken; an
  ambiguous abbreviation is an error at that point.
\<close>

definition ambiguous_option :: "string list \<Rightarrow> bool" where
  "ambiguous_option argv =
     list_ex (\<lambda>s. parse_optional s = Ambiguous) (takeWhile (\<lambda>s. s \<noteq> ''--'') argv)"

definition parse_args :: "string list \<Rightarrow> nat + args" where
  "parse_args argv =
     (if ambiguous_option argv then Inl 2 else consume argv False default_args)"

subsection \<open>\<^verbatim>\<open>main\<close> of the training script\<close>

text \<open>
  What the script does to its surroundings, as a trace of events: the lines it prints
  and its calls into the operating system and the libraries, with the arguments that
  come from the command line.
\<close>

datatype event =
  Print string
  | Seed_everything int
  | Mkdir string
  | Open_for_writing string
  | Write_text string
  | Close_file
  | Chmod string nat
  | Wandb_logger_init string string
  | Config_update "(string \<times> pyval) list"
  | Data_module_init string string int int int
  | Data_module_setup string
  | Model_init string pyfloat int pyfloat int int
  | Checkpoint_callback_init string
  | Trainer_init int string int
  | Trainer_fit
  | Wandb_finish

text \<open>
  The surroundings: the environment variables, the expansion of \<^verbatim>\<open>~/.netrc\<close>, the time
  stamp of the run, which calls raise an exception and with what text, and the two values
  that are read back from the libraries at the end.
\<close>

record world =
  environ :: "string \<rightharpoonup> string"
  netrc_path :: string
  timestamp :: string
  raises :: "event \<Rightarrow> bool"
  error_text :: "event \<Rightarrow> string"
  best_model_path :: string
  run_url :: string

text \<open>
  Calls one after the other, up to the first that raises: the trace (the call that raised
  is its last event) and that call.  Printing does not raise.
\<close>

definition is_print :: "event \<Rightarrow> bool" where
  "is_print e = (case e of Print _ \<Rightarrow> True | _ \<Rightarrow> False)"

fun perform :: "(event \<Rightarrow> bool) \<Rightarrow> event list \<Rightarrow> event list \<times> event option" where
  "perform r [] = ([], None)"
| "perform r (e # es) =
     (if r e \<and> \<not> is_print e then ([e], Some e)
      else (e # fst (perform r es), snd (perform r es)))"

text \<open>
  The credential file.  The guard is \<^verbatim>\<open>wandb_api_key and os.getenv('WANDB_MODE') !=
  'offline'\<close>: the key has to be set and not empty.
\<close>

definition wandb_login_wanted :: "world \<Rightarrow> bool" where
  "wandb_login_wanted w =
     (case environ w ''WANDB_API_KEY'' of
        None \<Rightarrow> False
      | Some k \<Rightarrow> k \<noteq> [] \<and> environ w ''WANDB_MODE'' \<noteq> Some ''offline'')"

definition netrc_lines :: "string \<Rightarrow> string list" where
  "netrc_lines k =
     [''machine api.wandb.ai'' @ nl, ''  login user'' @ nl, ''  password '' @ k @ nl]"

definition configured_message :: string where
  "configured_message = check_mark @ '' W&B API key configured''"

definition failure_message :: "world \<Rightarrow> event \<Rightarrow> string" where
  "failure_message w e = warn_mark @ '' Failed to configure W&B: '' @ error_text w e"

text \<open>The mode \<^verbatim>\<open>0o600\<close>: octal 600, read and write for the owner alone.\<close>

definition owner_only :: nat where
  "owner_only = 6 * 8 ^ 2"

text \<open>
  The \<^verbatim>\<open>try\<close> block: open the file, write the three lines, close it (the \<^verbatim>\<open>with\<close>
  statement closes it also when a write raised), change its mode to \<^verbatim>\<open>0o600\<close> and print
  the confirmation.  The handler prints the warning.
\<close>

definition write_netrc :: "world \<Rightarrow> string \<Rightarrow> event list" where
  "write_netrc w k =
     (case perform (raises w) (Open_for_writing (netrc_path w) # map Write_text (netrc_lines k)) of
        (t, Some e) \<Rightarrow>
          (if e = Open_for_writing (netrc_path w) then t @ [Print (failure_message w e)]
           else t @ [Close_file, Print (failure_message w e)])
      | (t, None) \<Rightarrow>
          (case perform (raises w) [Close_file, Chmod (netrc_path w) owner_only,
                                    Print configured_message] of
             (u, Some e) \<Rightarrow> t @ u @ [Print (failure_message w e)]
           | (u, None) \<Rightarrow> t @ u))"

definition credential_bootstrap :: "world \<Rightarrow> event list" where
  "credential_bootstrap w =
     (if wandb_login_wanted w then write_netrc w (the (environ w ''WANDB_API_KEY'')) else [])"

text \<open>The calls before and after the credential file, for the parsed arguments.\<close>

definition preparation :: "args \<Rightarrow> event list" where
  "preparation a = [Seed_everything (seed a), Mkdir (checkpoint_dir a)]"

definition run_name :: "world \<Rightarrow> args \<Rightarrow> string" where
  "run_name w a =
     (case wandb_run_name a of
        Some n \<Rightarrow> if n \<noteq> [] then n else task_name a @ ''_'' @ timestamp w
      | None \<Rightarrow> task_name a @ ''_'' @ timestamp w)"

definition hyperparameters :: "args \<Rightarrow> (string \<times> pyval) list" where
  "hyperparameters a =
     [(''model_name'', PStr (model_name_or_path a)),
      (''task_name'', PStr (task_name a)),
      (''learning_rate'', PFloat (learning_rate a)),
      (''epochs'', PInt (epochs a)),
      (''train_batch_size'', PInt (train_batch_size a)),
      (''eval_batch_size'', PInt (eval_batch_size a)),
      (''max_seq_length'', PInt (max_seq_length a)),
      (''warmup_steps'', PInt (warmup_steps a)),
      (''weight_decay'', PFloat (weight_decay a)),
      (''seed'', PInt (seed a))]"

definition wiring :: "world \<Rightarrow> args \<Rightarrow> event list" where
  "wiring w a =
     [Wandb_logger_init (wandb_project a) (run_name w a),
      Config_update (hyperparameters a),
      Print (''Loading '' @ task_name a @ '' dataset...''),
      Data_module_init (model_name_or_path a) (task_name a) (max_seq_length a)
        (train_batch_size a) (eval_batch_size a),
      Data_module_setup ''fit'',
      Print (''Initializing '' @ model_name_or_path a @ '' model...''),
      Model_init (model_name_or_path a) (learning_rate a) (warmup_steps a) (weight_decay a)
        (train_batch_size a) (eval_batch_size a),
      Checkpoint_callback_init (path_str (checkpoint_dir a)),
      Print (''Starting training for '' @ str_int (epochs a) @ '' epochs...''),
      Trainer_init (epochs a) (accelerator a) (devices a),
      Trainer_fit,
      Wandb_finish,
      Print (nl @ ''Training complete! Checkpoints saved to: '' @ path_str (checkpoint_dir a)),
      Print (''Best checkpoint: '' @ best_model_path w),
      Print (''W&B run: '' @ run_url w)]"

text \<open>
  How the process ends: \<^verbatim>\<open>main\<close> returns, the argument parser ends the process with a
  status, or the exception of a call leaves \<^verbatim>\<open>main\<close>.
\<close>

datatype outcome = Returned | Exited nat | Uncaught event

definition train_main :: "world \<Rightarrow> string list \<Rightarrow> event list \<times> outcome" where
  "train_main w argv =
     (case parse_args argv of
        Inl status \<Rightarrow> ([], Exited status)
      | Inr a \<Rightarrow>
          (case perform (raises w) (preparation a) of
             (t, Some e) \<Rightarrow> (t, Uncaught e)
           | (t, None) \<Rightarrow>
               (case perform (raises w) (wiring w a) of
                  (u, Some e) \<Rightarrow> (t @ credential_bootstrap w @ u, Uncaught e)
                | (u, None) \<Rightarrow> (t @ credential_bootstrap w @ u, Returned))))"


section \<open>Notions used to state the properties\<close>

subsection \<open>Segments of a checkpoint file name\<close>

text \<open>
  The key and the value of a segment with one \<^verbatim>\<open>=\<close>, and the assignment that the
  loop of \<open>extract_metrics_from_checkpoint\<close> performs for it.
\<close>

definition seg_key :: "string \<Rightarrow> string" where
  "seg_key part = takeWhile (\<lambda>c. c \<noteq> CHR ''='') part"

definition seg_value :: "string \<Rightarrow> string" where
  "seg_value part = drop 1 (dropWhile (\<lambda>c. c \<noteq> CHR ''='') part)"

definition store_part :: "metrics \<Rightarrow> string \<Rightarrow> metrics" where
  "store_part m part = AList.update (seg_key part) (coerce_value (seg_value part)) m"

text \<open>
  File names built from key/value pairs, \<^verbatim>\<open>k1=v1-k2=v2-...-kn=vn.ckpt\<close>.
\<close>

definition key_value_segment :: "string \<times> string \<Rightarrow> string" where
  "key_value_segment kv = fst kv @ ''='' @ snd kv"

definition checkpoint_file_name :: "(string \<times> string) list \<Rightarrow> string" where
  "checkpoint_file_name kvs = join_with CHR ''-'' (map key_value_segment kvs) @ ''.ckpt''"

definition plain_text :: "string \<Rightarrow> bool" where
  "plain_text s = (CHR ''-'' \<notin> set s \<and> CHR ''='' \<notin> set s)"

text \<open>
  The conversion rule in the specification's words: a float when the value contains a
  decimal point (and converts), else an integer when it parses as one, else the string.
\<close>

definition coerce_spec :: "string \<Rightarrow> pyval" where
  "coerce_spec v =
     (case (if CHR ''.'' \<in> set v then py_float v else None) of
        Some f \<Rightarrow> PFloat f
      | None \<Rightarrow> (case py_int v of Some n \<Rightarrow> PInt n | None \<Rightarrow> PStr v))"

definition spec_metrics :: "(string \<times> string) list \<Rightarrow> metrics" where
  "spec_metrics kvs = foldl (\<lambda>m kv. AList.update (fst kv) (coerce_spec (snd kv)) m) [] kvs"

subsection \<open>The order of the listed checkpoints\<close>

definition has_val_loss :: "checkpoint \<Rightarrow> bool" where
  "has_val_loss c = (map_of (metrics c) ''val_loss'' \<noteq> None)"

text \<open>The records that carry a validation loss, in strictly ascending order of it.\<close>

definition strictly_ascending_losses :: "checkpoint list \<Rightarrow> bool" where
  "strictly_ascending_losses rs =
     sorted_wrt (\<lambda>a b. key_lt (loss_key a) (loss_key b)) (filter has_val_loss rs)"

text \<open>Two keys between which \<^verbatim>\<open><\<close> holds in neither direction.\<close>

definition same_key :: "pyval \<Rightarrow> pyval \<Rightarrow> bool" where
  "same_key a b = (\<not> key_lt a b \<and> \<not> key_lt b a)"

text \<open>A key that is a number other than \<^verbatim>\<open>nan\<close>.\<close>

definition good_key :: "pyval \<Rightarrow> bool" where
  "good_key v = (\<not> is_str v \<and> v \<noteq> PFloat NaN)"

text \<open>
  The place of a numeric key in the order of the extended reals, as a pair that is
  compared lexicographically.
\<close>

definition key_rank :: "pyval \<Rightarrow> int \<times> rat" where
  "key_rank v =
     (case exact_value v of Fin q \<Rightarrow> (0, q) | PInf \<Rightarrow> (1, 0) | NInf \<Rightarrow> (- 1, 0) | NaN \<Rightarrow> (2, 0))"

text \<open>The records of the files that the scan of a directory yields, in scan order.\<close>

definition scanned_records :: "file_system \<Rightarrow> string \<Rightarrow> checkpoint list" where
  "scanned_records fs d = map (\<lambda>name. snd (checkpoint_of d name)) (glob_ckpt (fs d))"

subsection \<open>Percentage deviations\<close>

text \<open>
  The absolute percentage deviation of a float from an expected constant,
  \<open>\<bar>(a - e) / e \<times> 100\<bar>\<close>, in float arithmetic.  The quotient is read off \<open>fl_div\<close>, which
  raises only for a zero divisor.
\<close>

definition fl_quotient :: "pyfloat \<Rightarrow> pyfloat \<Rightarrow> pyfloat" where
  "fl_quotient a b = (case fl_div a b of Inr q \<Rightarrow> q | Inl _ \<Rightarrow> NaN)"

definition pct_deviation :: "pyfloat \<Rightarrow> pyfloat \<Rightarrow> pyfloat" where
  "pct_deviation a e = fl_mul (fl_quotient (fl_sub a e) e) (Fin 100)"

definition abs_pct_deviation :: "pyfloat \<Rightarrow> pyfloat \<Rightarrow> pyfloat" where
  "abs_pct_deviation a e = fl_abs (pct_deviation a e)"

text \<open>
  The verdict in the specification's words, for the three absolute percentage deviations:
  excellent when all are under 2, good when all are under 5, notice otherwise.
\<close>

definition spec_verdict :: "pyfloat \<Rightarrow> pyfloat \<Rightarrow> pyfloat \<Rightarrow> verdict" where
  "spec_verdict d1 d2 d3 =
     (if fl_lt d1 (Fin 2) \<and> fl_lt d2 (Fin 2) \<and> fl_lt d3 (Fin 2) then Excellent
      else if fl_lt d1 (Fin 5) \<and> fl_lt d2 (Fin 5) \<and> fl_lt d3 (Fin 5) then Good
      else Notice)"

subsection \<open>Help flags on the command line\<close>

definition is_help_flag :: "string \<Rightarrow> bool" where
  "is_help_flag s = (case parse_optional s of Option Help _ _ _ \<Rightarrow> True | _ \<Rightarrow> False)"

text \<open>A world in which nothing is set and no call raises.\<close>

definition quiet_world :: world where
  "quiet_world =
     \<lparr>environ = Map.empty, netrc_path = ''/root/.netrc'', timestamp = ''20240101_000000'',
      raises = (\<lambda>e. False), error_text = (\<lambda>e. []), best_model_path = [], run_url = []\<rparr>"

text \<open>The operations on the credential file, in the order of the \<^verbatim>\<open>try\<close> block.\<close>

definition file_operations :: "world \<Rightarrow> event list" where
  "file_operations w =
     Open_for_writing (netrc_path w)
     # map Write_text (netrc_lines (the (environ w ''WANDB_API_KEY'')))
     @ [Close_file, Chmod (netrc_path w) owner_only]"

section \<open>Proofs\<close>

subsection \<open>Evaluating the model on concrete inputs\<close>

lemma floor_rat_numeral_div [simp]:
  "\<lfloor>(numeral a / numeral b :: rat)\<rfloor> = numeral a div numeral b"
  using floor_divide_of_int_eq [of "numeral a" "numeral b", where ?'a = rat] by simp

lemma ceiling_rat_numeral_div [simp]:
  "\<lceil>(numeral a / numeral b :: rat)\<rceil> = - (- numeral a div numeral b)"
  by (simp add: ceiling_def floor_divide_of_int_eq [of "- numeral a" "numeral b", where ?'a = rat, simplified])

lemma floor_rat_one_div [simp]: "\<lfloor>(1 / numeral b :: rat)\<rfloor> = 1 div numeral b"
  using floor_divide_of_int_eq [of 1 "numeral b", where ?'a = rat] by simp

lemma ceiling_rat_one_div [simp]: "\<lceil>(1 / numeral b :: rat)\<rceil> = - (- 1 div numeral b)"
  by (simp add: ceiling_def floor_divide_of_int_eq [of "- 1" "numeral b", where ?'a = rat, simplified])

lemmas fl_eval = fl_round_def fl_pack_def fl_quantize_def fl_ulp_def ilog2_def bit_length.simps pow2_def
  round_half_even_def round_half_even_at_def

lemmas parse_eval = py_int_def py_float_def strip_def is_space_def int_body_def split_sign_def
  all_digits_def is_digit_def digit_val_def digits_val_def float_body_def decimal_body_def
  decimal_value_def mantissa_part_def exp_part_def is_exp_mark_def to_lower_def pow10_def fl_inf_def

lemmas path_eval = path_stem_def path_name_def path_parts_def stem_of_name_def after_last_dot_def
  child_path_def path_str_def path_root_def

lemmas extract_eval = extract_metrics_from_checkpoint_def coerce_value_def exception_text_def
  path_eval parse_eval fl_eval

lemmas listing_eval = list_checkpoints_def path_exists_def glob_ckpt_def ends_with_def
  checkpoint_of_def py_sorted_def loss_key_def is_str_def key_lt_def exact_value_def

lemmas verdict_eval = abs_pct_deviation_def pct_deviation_def fl_quotient_def fl_abs_def

lemmas print_eval = format_f_def fixed_point_def zfill_def str_nat.simps digit_char_def
  str_int_def ljust_def py_str_def prints_def rule_line_def nl_def

lemmas compare_eval = compare_metric_def comparison_line_def is_number_def float_operand_def
  int_to_float_def difference_def percentage_def fl_abs_def

lemmas argparse_eval = parse_optional_def option_strings_def starts_with_def before_equals_def
  after_equals_def separator_def option_matches_def negative_number_def negative_body_def
  ambiguous_option_def task_choices_def store_int_def store_float_def

text \<open>
  The float model on values that are known from Python: \<^verbatim>\<open>0.1\<close>,
  \<^verbatim>\<open>0.3 - 0.1 == 0.19999999999999998\<close>, \<^verbatim>\<open>1 / 3\<close>, \<^verbatim>\<open>0.1 * 3 == 0.30000000000000004\<close>,
  the ties \<^verbatim>\<open>float(2**53 + 1) == 2.0**53\<close> and \<^verbatim>\<open>float(2**53 + 3) == 2.0**53 + 4\<close>, the
  largest float and the overflow at the midpoint above it.
\<close>

lemma float_model_examples:
  "fl_round (1 / 10) = Fin (3602879701896397 / 36028797018963968)"
  "fl_sub (Fin (5404319552844595 / 18014398509481984)) (Fin (3602879701896397 / 36028797018963968)) = Fin (7205759403792793 / 36028797018963968)"
  "fl_div (Fin 1) (Fin 3) = Inr (Fin (6004799503160661 / 18014398509481984))"
  "fl_mul (Fin (3602879701896397 / 36028797018963968)) (Fin 3) = Fin (1351079888211149 / 4503599627370496)"
  "int_to_float (2 ^ 53 + 1) = Inr (Fin (2 ^ 53))"
  "int_to_float (2 ^ 53 + 3) = Inr (Fin (2 ^ 53 + 4))"
  by (simp_all add: fl_eval int_to_float_def)

lemma float_model_overflow:
  "fl_round (2 ^ 1024 - 2 ^ 971) = Fin (2 ^ 1024 - 2 ^ 971)"
  "fl_round (2 ^ 1024 - 2 ^ 970) = PInf"
  by (simp_all add: fl_eval)

subsection \<open>Parsing checkpoint file names\<close>

lemma split_on_not_Nil [simp]: "split_on c s \<noteq> []"
  by (induction s) (auto split: list.splits)

lemma split_on_absent: "c \<notin> set s \<Longrightarrow> split_on c s = [s]"
  by (induction s) auto

lemma split_on_once:
  "count_list s c = 1 \<Longrightarrow>
   split_on c s = [takeWhile (\<lambda>x. x \<noteq> c) s, drop 1 (dropWhile (\<lambda>x. x \<noteq> c) s)]"
proof (induction s)
  case Nil
  then show ?case by simp
next
  case (Cons x xs)
  show ?case
  proof (cases "x = c")
    case True
    with Cons.prems have "count_list xs c = 0" by simp
    then have "c \<notin> set xs" by (simp add: count_list_0_iff)
    with True show ?thesis by (simp add: split_on_absent)
  next
    case False
    with Cons.prems have "count_list xs c = 1" by simp
    with Cons.IH False show ?thesis by simp
  qed
qed

lemma count_list_pos_iff: "0 < count_list s c \<longleftrightarrow> c \<in> set s"
  using count_list_0_iff [of s c] by auto

lemma parse_parts_at_most_one:
  "\<forall>part \<in> set parts. count_list part CHR ''='' \<le> 1 \<Longrightarrow>
   parse_parts parts m =
     Inr (foldl store_part m (filter (\<lambda>part. CHR ''='' \<in> set part) parts))"
proof (induction parts arbitrary: m)
  case Nil
  then show ?case by simp
next
  case (Cons part rest)
  show ?case
  proof (cases "CHR ''='' \<in> set part")
    case True
    then have "0 < count_list part CHR ''=''" by (simp add: count_list_pos_iff)
    with Cons.prems have "count_list part CHR ''='' = 1" by force
    then have "split_on CHR ''='' part = [seg_key part, seg_value part]"
      by (simp add: split_on_once seg_key_def seg_value_def)
    with True Cons show ?thesis by (simp add: store_part_def)
  next
    case False
    with Cons show ?thesis by simp
  qed
qed

lemma parse_parts_skips:
  "parse_parts parts m = parse_parts (filter (\<lambda>part. CHR ''='' \<in> set part) parts) m"
  by (induction parts arbitrary: m) (auto split: list.splits)

lemma split_on_append_sep:
  "c \<notin> set x \<Longrightarrow> split_on c (x @ c # rest) = x # split_on c rest"
  by (induction x) auto

lemma split_on_join_with:
  "xs \<noteq> [] \<Longrightarrow> \<forall>x \<in> set xs. c \<notin> set x \<Longrightarrow> split_on c (join_with c xs) = xs"
  by (induction c xs rule: join_with.induct) (auto simp: split_on_absent split_on_append_sep)

lemma join_with_eq_Nil: "join_with c xs = [] \<Longrightarrow> \<forall>x \<in> set xs. x = []"
  by (induction c xs rule: join_with.induct) auto

lemma stem_of_name_ckpt: "s \<noteq> [] \<Longrightarrow> stem_of_name (s @ ''.ckpt'') = s"
  by (simp add: stem_of_name_def after_last_dot_def)

lemma in_set_dropWhile: "x \<in> set s \<Longrightarrow> \<not> P x \<Longrightarrow> x \<in> set (dropWhile P s)"
  by (induction s) auto

lemma in_set_strip: "x \<in> set s \<Longrightarrow> \<not> is_space x \<Longrightarrow> x \<in> set (strip s)"
  by (simp add: strip_def in_set_dropWhile)

lemma in_set_split_sign:
  "x \<in> set s \<Longrightarrow> x \<noteq> CHR ''-'' \<Longrightarrow> x \<noteq> CHR ''+'' \<Longrightarrow> x \<in> set (snd (split_sign s))"
  by (cases s) (auto simp: split_sign_def)

lemma int_body_digits: "int_body p = Some n \<Longrightarrow> x \<in> set (snd p) \<Longrightarrow> is_digit x"
  by (auto simp: int_body_def all_digits_def list_all_iff split: if_splits)

lemma py_int_no_point: "CHR ''.'' \<in> set v \<Longrightarrow> py_int v = None"
proof (rule ccontr)
  assume dot: "CHR ''.'' \<in> set v" and "py_int v \<noteq> None"
  then obtain n where n: "int_body (split_sign (filter (\<lambda>c. c \<noteq> CHR ''_'') (strip v))) = Some n"
    by (auto simp: py_int_def split: if_splits)
  have "CHR ''.'' \<in> set (strip v)"
    using dot by (rule in_set_strip) (simp add: is_space_def)
  then have "CHR ''.'' \<in> set (filter (\<lambda>c. c \<noteq> CHR ''_'') (strip v))" by simp
  then have "CHR ''.'' \<in> set (snd (split_sign (filter (\<lambda>c. c \<noteq> CHR ''_'') (strip v))))"
    by (rule in_set_split_sign) simp_all
  with n have "is_digit CHR ''.''" by (rule int_body_digits)
  then show False by (simp add: is_digit_def)
qed

lemma coerce_value_spec: "coerce_value v = coerce_spec v"
  by (simp add: coerce_value_def coerce_spec_def py_int_no_point split: option.splits)

lemma seg_key_segment: "CHR ''='' \<notin> set k \<Longrightarrow> seg_key (k @ CHR ''='' # v) = k"
  by (induction k) (auto simp: seg_key_def)

lemma seg_value_segment: "CHR ''='' \<notin> set k \<Longrightarrow> seg_value (k @ CHR ''='' # v) = v"
  by (induction k) (auto simp: seg_value_def)

lemma foldl_store_segments:
  "\<forall>kv \<in> set kvs. CHR ''='' \<notin> set (fst kv) \<Longrightarrow>
   foldl store_part m (map key_value_segment kvs) =
   foldl (\<lambda>m kv. AList.update (fst kv) (coerce_spec (snd kv)) m) m kvs"
  by (induction kvs arbitrary: m)
     (simp_all add: store_part_def key_value_segment_def seg_key_segment seg_value_segment
        coerce_value_spec)

text \<open>
  Claim C1.  For a checkpoint file whose name is a dash-separated sequence of
  \<^verbatim>\<open>key=value\<close> segments followed by \<^verbatim>\<open>.ckpt\<close>, \<open>extract_metrics_from_checkpoint\<close>
  prints nothing and returns the dictionary that maps every key to its value converted
  by the rule of the specification: a float when the value contains a decimal point,
  else an integer when it parses as one, else the original string.  The instance
  \<^verbatim>\<open>a=1-b=2.5-c=text.ckpt\<close> yields \<^verbatim>\<open>{a: 1, b: 2.5, c: "text"}\<close>.
\<close>

theorem extract_metrics_key_value_name:
  assumes "kvs \<noteq> []"
    and "\<forall>kv \<in> set kvs. plain_text (fst kv) \<and> plain_text (snd kv)"
    and "path_name p = checkpoint_file_name kvs"
  shows "extract_metrics_from_checkpoint p = ([], spec_metrics kvs)"
proof -
  let ?segs = "map key_value_segment kvs"
  have segs: "?segs \<noteq> []" using assms(1) by simp
  have nodash: "\<forall>x \<in> set ?segs. CHR ''-'' \<notin> set x"
    using assms(2) by (auto simp: key_value_segment_def plain_text_def)
  have one: "\<forall>x \<in> set ?segs. count_list x CHR ''='' \<le> 1"
    using assms(2) by (auto simp: key_value_segment_def plain_text_def count_list_0_iff)
  have has: "filter (\<lambda>part. CHR ''='' \<in> set part) ?segs = ?segs"
    by (induction kvs) (simp_all add: key_value_segment_def)
  have "join_with CHR ''-'' ?segs \<noteq> []"
  proof
    assume "join_with CHR ''-'' ?segs = []"
    then have "\<forall>x \<in> set ?segs. x = []" by (rule join_with_eq_Nil)
    with assms(1) show False by (cases kvs) (simp_all add: key_value_segment_def)
  qed
  then have "path_stem p = join_with CHR ''-'' ?segs"
    by (simp add: path_stem_def assms(3) checkpoint_file_name_def stem_of_name_ckpt)
  then have "split_on CHR ''-'' (path_stem p) = ?segs"
    using segs nodash by (simp add: split_on_join_with)
  moreover have "parse_parts ?segs [] = Inr (spec_metrics kvs)"
    using assms(2)
    by (simp add: parse_parts_at_most_one [OF one] has foldl_store_segments spec_metrics_def
        plain_text_def)
  ultimately show ?thesis by (simp add: extract_metrics_from_checkpoint_def)
qed

theorem extract_metrics_key_value_name_witness:
  "extract_metrics_from_checkpoint ''a=1-b=2.5-c=text.ckpt'' =
     ([], [(''a'', PInt 1), (''b'', PFloat (Fin (5 / 2))), (''c'', PStr ''text'')])"
proof -
  let ?kvs = "[(''a'', ''1''), (''b'', ''2.5''), (''c'', ''text'')]"
  have 1: "?kvs \<noteq> []" by simp
  have 2: "\<forall>kv \<in> set ?kvs. plain_text (fst kv) \<and> plain_text (snd kv)"
    by (simp add: plain_text_def)
  have 3: "path_name ''a=1-b=2.5-c=text.ckpt'' = checkpoint_file_name ?kvs"
    by (simp add: path_name_def path_parts_def checkpoint_file_name_def key_value_segment_def)
  have 4: "spec_metrics ?kvs = [(''a'', PInt 1), (''b'', PFloat (Fin (5 / 2))), (''c'', PStr ''text'')]"
    by (simp add: spec_metrics_def coerce_spec_def parse_eval fl_eval)
  show ?thesis
    using extract_metrics_key_value_name [OF 1 2 3] by (simp only: 4)
qed

lemma keys_foldl_store_part:
  "fst ` set (foldl store_part m parts) = fst ` set m \<union> seg_key ` set parts"
  by (induction parts arbitrary: m) (auto simp: store_part_def dom_update)

text \<open>
  Claim C2 fails for a segment with more than one \<^verbatim>\<open>=\<close>: unpacking the split raises
  outside the inner \<^verbatim>\<open>try\<close>, the outer handler prints a message and the whole
  dictionary is empty, so the entries of the other segments are lost.
\<close>

theorem extract_metrics_two_equals_counterexample:
  "extract_metrics_from_checkpoint ''checkpoints/epoch=1-note=a=b-val_loss=0.5.ckpt'' =
     ([''Error extracting metrics: too many values to unpack (expected 2)''], [])"
  by (simp add: extract_metrics_from_checkpoint_def path_stem_def path_name_def path_parts_def
      stem_of_name_def after_last_dot_def coerce_value_def exception_text_def parse_eval fl_eval)

text \<open>
  Claim C2, amended.  When no segment of the name has more than one \<^verbatim>\<open>=\<close>, nothing is
  printed, the segments without \<^verbatim>\<open>=\<close> are skipped one by one (the result is that of the
  remaining segments alone), and the key of every segment with an \<^verbatim>\<open>=\<close> is in the
  returned dictionary.
\<close>

theorem extract_metrics_skips_segments_without_equals:
  assumes "\<forall>part \<in> set (split_on CHR ''-'' (path_stem p)). count_list part CHR ''='' \<le> 1"
  shows "extract_metrics_from_checkpoint p =
           ([], foldl store_part []
                  (filter (\<lambda>part. CHR ''='' \<in> set part) (split_on CHR ''-'' (path_stem p))))
         \<and> (\<forall>part \<in> set (split_on CHR ''-'' (path_stem p)).
               CHR ''='' \<in> set part \<longrightarrow>
               seg_key part \<in> fst ` set (snd (extract_metrics_from_checkpoint p)))"
proof -
  have "extract_metrics_from_checkpoint p =
           ([], foldl store_part []
                  (filter (\<lambda>part. CHR ''='' \<in> set part) (split_on CHR ''-'' (path_stem p))))"
    by (simp add: extract_metrics_from_checkpoint_def parse_parts_at_most_one [OF assms])
  then show ?thesis by (simp add: keys_foldl_store_part)
qed

theorem extract_metrics_skips_segments_without_equals_witness:
  "extract_metrics_from_checkpoint ''checkpoints/epoch=1-best-val_loss=0.5.ckpt'' =
     ([], [(''epoch'', PInt 1), (''val_loss'', PFloat (Fin (1 / 2)))])"
proof -
  have parts: "split_on CHR ''-'' (path_stem ''checkpoints/epoch=1-best-val_loss=0.5.ckpt'') =
      [''epoch=1'', ''best'', ''val_loss=0.5'']"
    by (simp add: path_stem_def path_name_def path_parts_def stem_of_name_def after_last_dot_def)
  have hyp: "\<forall>part \<in> set (split_on CHR ''-'' (path_stem ''checkpoints/epoch=1-best-val_loss=0.5.ckpt'')).
      count_list part CHR ''='' \<le> 1"
    by (simp add: parts)
  have val: "foldl store_part [] (filter (\<lambda>part. CHR ''='' \<in> set part)
        [''epoch=1'', ''best'', ''val_loss=0.5'']) =
      [(''epoch'', PInt 1), (''val_loss'', PFloat (Fin (1 / 2)))]"
    by (simp add: store_part_def seg_key_def seg_value_def coerce_value_def parse_eval fl_eval)
  show ?thesis
    using extract_metrics_skips_segments_without_equals [OF hyp]
    by (simp only: parts val)
qed

subsection \<open>Listing and sorting checkpoints\<close>

lemma fl_round_not_NaN: "fl_round x \<noteq> NaN"
  by (simp add: fl_round_def fl_pack_def)

lemma float_body_NaN:
  "float_body p = Some NaN \<Longrightarrow> map to_lower (snd p) = ''nan''"
  by (auto simp: float_body_def fl_inf_def fl_round_not_NaN split: if_splits option.splits)

lemma py_float_point_not_NaN:
  assumes "CHR ''.'' \<in> set v"
  shows "py_float v \<noteq> Some NaN"
proof
  assume "py_float v = Some NaN"
  then have "float_body (split_sign (filter (\<lambda>c. c \<noteq> CHR ''_'') (strip v))) = Some NaN"
    by (simp add: py_float_def split: if_splits)
  then have nan: "map to_lower (snd (split_sign (filter (\<lambda>c. c \<noteq> CHR ''_'') (strip v)))) = ''nan''"
    by (rule float_body_NaN)
  have "CHR ''.'' \<in> set (strip v)"
    using assms by (rule in_set_strip) (simp add: is_space_def)
  then have "CHR ''.'' \<in> set (filter (\<lambda>c. c \<noteq> CHR ''_'') (strip v))" by simp
  then have "CHR ''.'' \<in> set (snd (split_sign (filter (\<lambda>c. c \<noteq> CHR ''_'') (strip v))))"
    by (rule in_set_split_sign) simp_all
  then have "to_lower CHR ''.'' \<in> set (map to_lower (snd (split_sign (filter (\<lambda>c. c \<noteq> CHR ''_'') (strip v)))))"
    by (simp only: set_map) (rule imageI)
  then show False by (simp add: nan to_lower_def)
qed

lemma coerce_value_not_NaN: "coerce_value v \<noteq> PFloat NaN"
  using py_float_point_not_NaN [of v]
  by (auto simp: coerce_value_def split: option.splits)

lemma parse_parts_values:
  "parse_parts parts m = Inr m' \<Longrightarrow> map_of m' k = Some v \<Longrightarrow>
   map_of m k = Some v \<or> (\<exists>s. v = coerce_value s)"
proof (induction parts arbitrary: m)
  case Nil
  then show ?case by simp
next
  case (Cons part rest)
  show ?case
  proof (cases "CHR ''='' \<in> set part")
    case False
    with Cons show ?thesis by simp
  next
    case True
    with Cons.prems(1) obtain key val where
      kv: "split_on CHR ''='' part = [key, val]"
      and rest: "parse_parts rest (AList.update key (coerce_value val) m) = Inr m'"
      by (auto split: list.splits)
    from Cons.IH [OF rest Cons.prems(2)] show ?thesis
      by (auto simp: update_conv' split: if_splits)
  qed
qed

lemma extract_metrics_values:
  "map_of (snd (extract_metrics_from_checkpoint p)) k = Some v \<Longrightarrow> \<exists>s. v = coerce_value s"
  using parse_parts_values [of "split_on CHR ''-'' (path_stem p)" "[]" _ k v]
  by (auto simp: extract_metrics_from_checkpoint_def split: sum.splits)

lemma loss_key_not_NaN: "loss_key (snd (checkpoint_of d name)) \<noteq> PFloat NaN"
  using extract_metrics_values [of "child_path d name" "''val_loss''"]
  by (auto simp: loss_key_def checkpoint_of_def coerce_value_not_NaN [THEN not_sym]
      split: option.splits)

lemma key_lt_rank:
  "\<not> is_str a \<Longrightarrow> \<not> is_str b \<Longrightarrow> a \<noteq> PFloat NaN \<Longrightarrow> b \<noteq> PFloat NaN \<Longrightarrow>
   key_lt a b \<longleftrightarrow> key_rank a < key_rank b"
  by (cases a; cases b)
     (auto simp: key_lt_def key_rank_def exact_value_def is_str_def split: pyfloat.splits)

lemma insert_by_key_insort:
  "good_key (f x) \<Longrightarrow> \<forall>y \<in> set ys. good_key (f y) \<Longrightarrow>
   insert_by_key f x ys = insort_key (\<lambda>a. key_rank (f a)) x ys"
  by (induction ys) (auto simp: key_lt_rank good_key_def)

lemma foldr_insert_by_key_sort:
  "\<forall>y \<in> set xs. good_key (f y) \<Longrightarrow>
   foldr (insert_by_key f) xs [] = List.sort_key (\<lambda>a. key_rank (f a)) xs"
proof (induction xs)
  case Nil
  then show ?case by simp
next
  case (Cons x xs)
  then have "foldr (insert_by_key f) xs [] = List.sort_key (\<lambda>a. key_rank (f a)) xs" by simp
  moreover have "\<forall>y \<in> set (List.sort_key (\<lambda>a. key_rank (f a)) xs). good_key (f y)"
    using Cons.prems by simp
  ultimately show ?case
    using Cons.prems by (simp add: insert_by_key_insort sort_key_def)
qed

lemma py_sorted_good:
  assumes "\<forall>y \<in> set xs. good_key (f y)"
  shows "py_sorted f xs = Inr (List.sort_key (\<lambda>a. key_rank (f a)) xs)"
proof -
  have "\<not> list_ex (\<lambda>x. is_str (f x)) xs"
    using assms by (auto simp: list_ex_iff good_key_def)
  then show ?thesis
    by (simp add: py_sorted_def foldr_insert_by_key_sort [OF assms])
qed


lemma good_loss_key:
  "\<not> is_str (loss_key (snd (checkpoint_of d name))) \<Longrightarrow>
   good_key (loss_key (snd (checkpoint_of d name)))"
  by (simp add: good_key_def loss_key_not_NaN)

lemma key_rank_inf: "key_rank (PFloat PInf) = (1, 0)"
  by (simp add: key_rank_def exact_value_def)

lemma missing_loss_key: "\<not> has_val_loss c \<Longrightarrow> loss_key c = PFloat PInf"
  by (simp add: has_val_loss_def loss_key_def)

text \<open>
  Claim C3, amended.  When no file name gives \<^verbatim>\<open>val_loss\<close> a value that stays a string,
  \<open>list_checkpoints\<close> returns the records of the scanned files in non-decreasing order
  of the key (the validation loss, or \<open>+\<infinity>\<close> for a record without one): the result is a
  rearrangement of the records, no record is followed by one with a smaller key, records
  with equal keys keep their scan order, and a record without \<^verbatim>\<open>val_loss\<close> is followed
  only by records whose key is not below \<open>+\<infinity>\<close>.
\<close>

theorem list_checkpoints_sorted_by_loss:
  assumes "\<forall>c \<in> set (scanned_records fs d). \<not> is_str (loss_key c)"
  shows "\<exists>rs. snd (list_checkpoints fs d) = Inr rs
           \<and> mset rs = mset (scanned_records fs d)
           \<and> sorted_wrt (\<lambda>a b. \<not> key_lt (loss_key b) (loss_key a)) rs
           \<and> (\<forall>k. good_key k \<longrightarrow>
                 filter (\<lambda>c. same_key (loss_key c) k) rs =
                 filter (\<lambda>c. same_key (loss_key c) k) (scanned_records fs d))
           \<and> (\<forall>i j. i < j \<longrightarrow> j < length rs \<longrightarrow> \<not> has_val_loss (rs ! i) \<longrightarrow>
                 \<not> key_lt (loss_key (rs ! j)) (PFloat PInf))"
proof -
  let ?xs = "scanned_records fs d"
  let ?rs = "List.sort_key (\<lambda>a. key_rank (loss_key a)) ?xs"
  have good: "\<forall>c \<in> set ?xs. good_key (loss_key c)"
    using assms by (auto simp: scanned_records_def good_loss_key)
  have res: "snd (list_checkpoints fs d) = Inr ?rs"
  proof (cases "path_exists (fs d)")
    case True
    then show ?thesis
      using py_sorted_good [OF good]
      by (simp add: list_checkpoints_def scanned_records_def)
  next
    case False
    then show ?thesis
      by (simp add: list_checkpoints_def scanned_records_def path_exists_def glob_ckpt_def)
  qed
  have good_rs: "\<forall>c \<in> set ?rs. good_key (loss_key c)"
    using good by simp
  have srt: "sorted (map (\<lambda>a. key_rank (loss_key a)) ?rs)"
    by (rule sorted_sort_key)
  have asc: "sorted_wrt (\<lambda>a b. \<not> key_lt (loss_key b) (loss_key a)) ?rs"
  proof -
    have "sorted_wrt (\<lambda>a b. key_rank (loss_key a) \<le> key_rank (loss_key b)) ?rs"
      using srt by (simp add: sorted_map)
    then show ?thesis
      by (rule sorted_wrt_mono_rel [rotated])
         (use good_rs in \<open>auto simp: key_lt_rank good_key_def\<close>)
  qed
  have stable: "\<forall>k. good_key k \<longrightarrow>
      filter (\<lambda>c. same_key (loss_key c) k) ?rs = filter (\<lambda>c. same_key (loss_key c) k) ?xs"
  proof (intro allI impI)
    fix k assume k: "good_key k"
    have eq: "\<And>c. c \<in> set ?xs \<Longrightarrow>
        same_key (loss_key c) k \<longleftrightarrow> key_rank (loss_key c) = key_rank k"
      using good k by (auto simp: same_key_def key_lt_rank good_key_def)
    have "filter (\<lambda>c. same_key (loss_key c) k) ?rs =
          filter (\<lambda>c. key_rank (loss_key c) = key_rank k) ?rs"
      by (rule filter_cong) (simp_all add: eq)
    also have "\<dots> = filter (\<lambda>c. key_rank (loss_key c) = key_rank k) ?xs"
      by (rule sort_key_stable)
    also have "\<dots> = filter (\<lambda>c. same_key (loss_key c) k) ?xs"
      by (rule filter_cong) (simp_all add: eq)
    finally show "filter (\<lambda>c. same_key (loss_key c) k) ?rs =
        filter (\<lambda>c. same_key (loss_key c) k) ?xs" .
  qed
  have last: "\<forall>i j. i < j \<longrightarrow> j < length ?rs \<longrightarrow> \<not> has_val_loss (?rs ! i) \<longrightarrow>
      \<not> key_lt (loss_key (?rs ! j)) (PFloat PInf)"
  proof (intro allI impI)
    fix i j assume ij: "i < j" "j < length ?rs" and miss: "\<not> has_val_loss (?rs ! i)"
    from asc ij have "\<not> key_lt (loss_key (?rs ! j)) (loss_key (?rs ! i))"
      by (rule sorted_wrt_nth_less)
    then show "\<not> key_lt (loss_key (?rs ! j)) (PFloat PInf)"
      by (simp add: missing_loss_key [OF miss])
  qed
  show ?thesis
    using res asc stable last by (intro exI [of _ ?rs]) simp
qed


text \<open>
  Claim C3 asks for strictly ascending validation losses.  Two files with the same loss
  are both listed, next to each other.
\<close>

theorem list_checkpoints_equal_losses_counterexample:
  "snd (list_checkpoints
          (\<lambda>p. Directory [''epoch=1-val_loss=0.5.ckpt'', ''epoch=2-val_loss=0.5.ckpt''])
          ''checkpoints'') =
     Inr [\<lparr>filename = ''epoch=1-val_loss=0.5.ckpt'',
           path = ''checkpoints/epoch=1-val_loss=0.5.ckpt'',
           metrics = [(''epoch'', PInt 1), (''val_loss'', PFloat (Fin (1 / 2)))]\<rparr>,
          \<lparr>filename = ''epoch=2-val_loss=0.5.ckpt'',
           path = ''checkpoints/epoch=2-val_loss=0.5.ckpt'',
           metrics = [(''epoch'', PInt 2), (''val_loss'', PFloat (Fin (1 / 2)))]\<rparr>]
   \<and> \<not> strictly_ascending_losses
        [\<lparr>filename = ''epoch=1-val_loss=0.5.ckpt'',
           path = ''checkpoints/epoch=1-val_loss=0.5.ckpt'',
           metrics = [(''epoch'', PInt 1), (''val_loss'', PFloat (Fin (1 / 2)))]\<rparr>,
          \<lparr>filename = ''epoch=2-val_loss=0.5.ckpt'',
           path = ''checkpoints/epoch=2-val_loss=0.5.ckpt'',
           metrics = [(''epoch'', PInt 2), (''val_loss'', PFloat (Fin (1 / 2)))]\<rparr>]"
  by (simp add: listing_eval extract_eval strictly_ascending_losses_def has_val_loss_def)

theorem list_checkpoints_sorted_by_loss_witness:
  "snd (list_checkpoints
          (\<lambda>p. Directory [''epoch=2-val_loss=0.5.ckpt'', ''last.ckpt'', ''epoch=1-val_loss=0.25.ckpt''])
          ''checkpoints'') =
     Inr [\<lparr>filename = ''epoch=1-val_loss=0.25.ckpt'',
           path = ''checkpoints/epoch=1-val_loss=0.25.ckpt'',
           metrics = [(''epoch'', PInt 1), (''val_loss'', PFloat (Fin (1 / 4)))]\<rparr>,
          \<lparr>filename = ''epoch=2-val_loss=0.5.ckpt'',
           path = ''checkpoints/epoch=2-val_loss=0.5.ckpt'',
           metrics = [(''epoch'', PInt 2), (''val_loss'', PFloat (Fin (1 / 2)))]\<rparr>,
          \<lparr>filename = ''last.ckpt'', path = ''checkpoints/last.ckpt'', metrics = []\<rparr>]
   \<and> (\<exists>rs. snd (list_checkpoints
          (\<lambda>p. Directory [''epoch=2-val_loss=0.5.ckpt'', ''last.ckpt'', ''epoch=1-val_loss=0.25.ckpt''])
          ''checkpoints'') = Inr rs
         \<and> sorted_wrt (\<lambda>a b. \<not> key_lt (loss_key b) (loss_key a)) rs)"
proof -
  let ?fs = "\<lambda>p::string. Directory [''epoch=2-val_loss=0.5.ckpt'', ''last.ckpt'', ''epoch=1-val_loss=0.25.ckpt'']"
  have hyp: "\<forall>c \<in> set (scanned_records ?fs ''checkpoints''). \<not> is_str (loss_key c)"
    by (simp add: scanned_records_def listing_eval extract_eval)
  have ev: "snd (list_checkpoints ?fs ''checkpoints'') =
     Inr [\<lparr>filename = ''epoch=1-val_loss=0.25.ckpt'',
           path = ''checkpoints/epoch=1-val_loss=0.25.ckpt'',
           metrics = [(''epoch'', PInt 1), (''val_loss'', PFloat (Fin (1 / 4)))]\<rparr>,
          \<lparr>filename = ''epoch=2-val_loss=0.5.ckpt'',
           path = ''checkpoints/epoch=2-val_loss=0.5.ckpt'',
           metrics = [(''epoch'', PInt 2), (''val_loss'', PFloat (Fin (1 / 2)))]\<rparr>,
          \<lparr>filename = ''last.ckpt'', path = ''checkpoints/last.ckpt'', metrics = []\<rparr>]"
    by (simp add: listing_eval extract_eval)
  from list_checkpoints_sorted_by_loss [OF hyp]
  have "\<exists>rs. snd (list_checkpoints ?fs ''checkpoints'') = Inr rs
         \<and> sorted_wrt (\<lambda>a b. \<not> key_lt (loss_key b) (loss_key a)) rs"
    by blast
  with ev show ?thesis by (intro conjI)
qed

text \<open>
  Claim C6 promises a notice whenever the argument does not name an existing directory.
  The guard is \<^verbatim>\<open>exists()\<close>: for a path that exists and is not a directory nothing is
  printed.
\<close>

theorem list_checkpoints_not_directory_counterexample:
  "list_checkpoints (\<lambda>p. NotDirectory) ''checkpoints'' = ([], Inr [])"
  by (simp add: listing_eval)

text \<open>
  Claim C6, amended.  For a path at which nothing exists, \<open>list_checkpoints\<close> prints the
  notice and returns the empty list; for a path that exists and is not a directory, and
  for an empty directory, it prints nothing and returns the empty list.  In no case does
  an exception leave the function.
\<close>

theorem list_checkpoints_nothing_to_list:
  "(fs d = Absent \<longrightarrow>
      list_checkpoints fs d = ([''Checkpoint directory not found: '' @ d], Inr []))
   \<and> (fs d = NotDirectory \<longrightarrow> list_checkpoints fs d = ([], Inr []))
   \<and> (fs d = Directory [] \<longrightarrow> list_checkpoints fs d = ([], Inr []))"
  by (simp add: list_checkpoints_def path_exists_def glob_ckpt_def py_sorted_def)

theorem list_checkpoints_nothing_to_list_witness:
  "list_checkpoints (\<lambda>p. Absent) ''checkpoints'' =
     ([''Checkpoint directory not found: checkpoints''], Inr [])
   \<and> list_checkpoints (\<lambda>p. Directory []) ''checkpoints'' = ([], Inr [])"
  using list_checkpoints_nothing_to_list [of "\<lambda>p. Absent" "''checkpoints''"]
    list_checkpoints_nothing_to_list [of "\<lambda>p. Directory []" "''checkpoints''"]
  by simp


subsection \<open>The verdict\<close>

lemma expected_val_loss: "fl_round (3504 / 10000) = Fin (6312245237722487 / 18014398509481984)"
  by (simp add: fl_eval)

lemma expected_accuracy: "fl_round (846 / 1000) = Fin (7620090569510879 / 9007199254740992)"
  by (simp add: fl_eval)

lemma expected_f1: "fl_round (893 / 1000) = Fin (4021714467241853 / 4503599627370496)"
  by (simp add: fl_eval)

lemma percentage_nonzero:
  "q \<noteq> 0 \<Longrightarrow> percentage d (Fin q) = Inr (fl_mul (fl_quotient d (Fin q)) (Fin 100))"
  by (cases d) (simp_all add: percentage_def fl_quotient_def)

lemma deviation_value:
  "map_of m k = Some v \<Longrightarrow> float_operand v = Inr a \<Longrightarrow> q \<noteq> 0 \<Longrightarrow>
   deviation m (k, Fin q) = Inr (abs_pct_deviation a (Fin q))"
  by (simp add: deviation_def difference_def percentage_nonzero abs_pct_deviation_def
      pct_deviation_def)

text \<open>
  Claim C4.  For a metric record that holds numbers under the three keys (floats, or
  integers that convert to a float), the verdict is ``excellent'' exactly when all three
  absolute percentage deviations from 0.3504, 0.846 and 0.893 are below 2, ``good'' when
  they are not all below 2 but all below 5, and ``notice'' otherwise; the two lines of
  that verdict are what is printed under the heading.
\<close>

theorem verdict_by_deviation:
  assumes "map_of m ''val_loss'' = Some v1"
    and "map_of m ''accuracy'' = Some v2"
    and "map_of m ''f1'' = Some v3"
    and "float_operand v1 = Inr a1"
    and "float_operand v2 = Inr a2"
    and "float_operand v3 = Inr a3"
  shows "verdict_of m =
           Inr (spec_verdict (abs_pct_deviation a1 (fl_round (3504 / 10000)))
                             (abs_pct_deviation a2 (fl_round (846 / 1000)))
                             (abs_pct_deviation a3 (fl_round (893 / 1000))))
         \<and> print_verdict m =
           ((nl @ ''Verdict:'')
            # verdict_text (spec_verdict (abs_pct_deviation a1 (fl_round (3504 / 10000)))
                                        (abs_pct_deviation a2 (fl_round (846 / 1000)))
                                        (abs_pct_deviation a3 (fl_round (893 / 1000)))),
            Inr ())"
proof -
  have "deviations m expected_results =
      Inr [abs_pct_deviation a1 (fl_round (3504 / 10000)),
           abs_pct_deviation a2 (fl_round (846 / 1000)),
           abs_pct_deviation a3 (fl_round (893 / 1000))]"
    using assms
    unfolding expected_results_def expected_val_loss expected_accuracy expected_f1
    by (simp add: deviation_value)
  then have "verdict_of m =
           Inr (spec_verdict (abs_pct_deviation a1 (fl_round (3504 / 10000)))
                             (abs_pct_deviation a2 (fl_round (846 / 1000)))
                             (abs_pct_deviation a3 (fl_round (893 / 1000))))"
    using assms(1-3)
    by (simp add: verdict_of_def expected_results_def classify_def spec_verdict_def)
  then show ?thesis
    by (simp add: print_verdict_def prints_def)
qed

lemma metrics_ex:
  "snd (extract_metrics_from_checkpoint ''val_loss=0.352152-accuracy=0.85446-f1=0.906395.ckpt'') =
     [(''val_loss'', PFloat (Fin (1585951615977775 / 4503599627370496))), (''accuracy'', PFloat (Fin (1924072868801497 / 2251799813685248))), (''f1'', PFloat (Fin (8164080368500961 / 9007199254740992)))]"
  by (simp add: extract_eval)

lemma metrics_gd:
  "snd (extract_metrics_from_checkpoint ''val_loss=0.353904-accuracy=0.87984-f1=0.92872.ckpt'') =
     [(''val_loss'', PFloat (Fin (6225945009863 / 17592186044416))), (''accuracy'', PFloat (Fin (3962447096145657 / 4503599627370496))), (''f1'', PFloat (Fin (4182583045931527 / 4503599627370496)))]"
  by (simp add: extract_eval)

lemma metrics_nt:
  "snd (extract_metrics_from_checkpoint ''val_loss=0.3504-accuracy=0.9-f1=0.893.ckpt'') =
     [(''val_loss'', PFloat (Fin (6312245237722487 / 18014398509481984))), (''accuracy'', PFloat (Fin (8106479329266893 / 9007199254740992))), (''f1'', PFloat (Fin (4021714467241853 / 4503599627370496)))]"
  by (simp add: extract_eval)

theorem verdict_by_deviation_witness:
  "verdict_of (snd (extract_metrics_from_checkpoint ''val_loss=0.352152-accuracy=0.85446-f1=0.906395.ckpt'')) = Inr Excellent
   \<and> verdict_of (snd (extract_metrics_from_checkpoint ''val_loss=0.353904-accuracy=0.87984-f1=0.92872.ckpt'')) = Inr Good
   \<and> verdict_of (snd (extract_metrics_from_checkpoint ''val_loss=0.3504-accuracy=0.9-f1=0.893.ckpt'')) = Inr Notice"
proof -
  have ex: "verdict_of (snd (extract_metrics_from_checkpoint ''val_loss=0.352152-accuracy=0.85446-f1=0.906395.ckpt'')) = Inr Excellent"
    using verdict_by_deviation [of "snd (extract_metrics_from_checkpoint ''val_loss=0.352152-accuracy=0.85446-f1=0.906395.ckpt'')"
        "PFloat (Fin (1585951615977775 / 4503599627370496))" "PFloat (Fin (1924072868801497 / 2251799813685248))" "PFloat (Fin (8164080368500961 / 9007199254740992))" "Fin (1585951615977775 / 4503599627370496)" "Fin (1924072868801497 / 2251799813685248)" "Fin (8164080368500961 / 9007199254740992)"]
    by (simp add: metrics_ex float_operand_def spec_verdict_def verdict_eval fl_eval)
  have gd: "verdict_of (snd (extract_metrics_from_checkpoint ''val_loss=0.353904-accuracy=0.87984-f1=0.92872.ckpt'')) = Inr Good"
    using verdict_by_deviation [of "snd (extract_metrics_from_checkpoint ''val_loss=0.353904-accuracy=0.87984-f1=0.92872.ckpt'')"
        "PFloat (Fin (6225945009863 / 17592186044416))" "PFloat (Fin (3962447096145657 / 4503599627370496))" "PFloat (Fin (4182583045931527 / 4503599627370496))" "Fin (6225945009863 / 17592186044416)" "Fin (3962447096145657 / 4503599627370496)" "Fin (4182583045931527 / 4503599627370496)"]
    by (simp add: metrics_gd float_operand_def spec_verdict_def verdict_eval fl_eval)
  have nt: "verdict_of (snd (extract_metrics_from_checkpoint ''val_loss=0.3504-accuracy=0.9-f1=0.893.ckpt'')) = Inr Notice"
    using verdict_by_deviation [of "snd (extract_metrics_from_checkpoint ''val_loss=0.3504-accuracy=0.9-f1=0.893.ckpt'')"
        "PFloat (Fin (6312245237722487 / 18014398509481984))" "PFloat (Fin (8106479329266893 / 9007199254740992))" "PFloat (Fin (4021714467241853 / 4503599627370496))" "Fin (6312245237722487 / 18014398509481984)" "Fin (8106479329266893 / 9007199254740992)" "Fin (4021714467241853 / 4503599627370496)"]
    by (simp add: metrics_nt float_operand_def spec_verdict_def verdict_eval fl_eval)
  from ex gd nt show ?thesis by (intro conjI)
qed


subsection \<open>The comparison with the expected results\<close>

text \<open>
  Claim C5.  For the best checkpoint \<^verbatim>\<open>epoch=2-step=500-val_loss=0.3400.ckpt\<close> and the
  expected validation loss 0.3504, the computed difference is \<open>-0.0104\<close> to the four
  decimals that are shown, and the computed percentage deviation is \<open>-2.97\<close> to two
  decimals (\<open>-2.968...\<close>; the report shows it with one decimal, as \<open>-3.0%\<close>).
\<close>

theorem val_loss_difference_scenario:
  "map_of (snd (extract_metrics_from_checkpoint ''epoch=2-step=500-val_loss=0.3400.ckpt''))
       ''val_loss'' = Some (PFloat (Fin (6124895493223875 / 18014398509481984)))
   \<and> difference (PFloat (Fin (6124895493223875 / 18014398509481984))) (fl_round (3504 / 10000)) = Inr (Fin (- (46837436124653 / 4503599627370496)))
   \<and> format_f True 4 (Fin (- (46837436124653 / 4503599627370496))) = ''-0.0104''
   \<and> percentage (Fin (- (46837436124653 / 4503599627370496))) (fl_round (3504 / 10000)) = Inr (Fin (- (3341712052272617 / 1125899906842624)))
   \<and> format_f True 2 (Fin (- (3341712052272617 / 1125899906842624))) = ''-2.97''
   \<and> compare_metric
         (snd (extract_metrics_from_checkpoint ''epoch=2-step=500-val_loss=0.3400.ckpt''))
         (''val_loss'', fl_round (3504 / 10000)) =
       ([warn_mark @ '' val_loss: 0.3400 (expected: 0.3504, diff: -0.0104 / -3.0%)''], Inr ())"
proof -
  have m: "snd (extract_metrics_from_checkpoint ''epoch=2-step=500-val_loss=0.3400.ckpt'') =
      [(''epoch'', PInt 2), (''step'', PInt 500), (''val_loss'', PFloat (Fin (6124895493223875 / 18014398509481984)))]"
    by (simp add: extract_eval)
  have e: "fl_round (3504 / 10000) = Fin (6312245237722487 / 18014398509481984)"
    by (simp add: fl_eval)
  have d: "difference (PFloat (Fin (6124895493223875 / 18014398509481984))) (Fin (6312245237722487 / 18014398509481984)) = Inr (Fin (- (46837436124653 / 4503599627370496)))"
    by (simp add: compare_eval fl_eval)
  have p: "percentage (Fin (- (46837436124653 / 4503599627370496))) (Fin (6312245237722487 / 18014398509481984)) = Inr (Fin (- (3341712052272617 / 1125899906842624)))"
    by (simp add: compare_eval fl_eval)
  have f4: "format_f True 4 (Fin (- (46837436124653 / 4503599627370496))) = ''-0.0104''"
    by (simp add: print_eval round_half_even_def round_half_even_at_def)
  have f2: "format_f True 2 (Fin (- (3341712052272617 / 1125899906842624))) = ''-2.97''"
    by (simp add: print_eval round_half_even_def round_half_even_at_def)
  have f1: "format_f True 1 (Fin (- (3341712052272617 / 1125899906842624))) = ''-3.0''"
    by (simp add: print_eval round_half_even_def round_half_even_at_def)
  have fa: "format_f False 4 (Fin (6124895493223875 / 18014398509481984)) = ''0.3400''"
    by (simp add: print_eval round_half_even_def round_half_even_at_def)
  have fe: "format_f False 4 (Fin (6312245237722487 / 18014398509481984)) = ''0.3504''"
    by (simp add: print_eval round_half_even_def round_half_even_at_def)
  have c: "compare_metric
         [(''epoch'', PInt 2), (''step'', PInt 500), (''val_loss'', PFloat (Fin (6124895493223875 / 18014398509481984)))]
         (''val_loss'', Fin (6312245237722487 / 18014398509481984)) =
       ([warn_mark @ '' val_loss: 0.3400 (expected: 0.3504, diff: -0.0104 / -3.0%)''], Inr ())"
    by (simp add: compare_metric_def is_number_def float_operand_def p fl_eval
        comparison_line_def f4 f1 [unfolded One_nat_def] fa fe fl_abs_def prints_def)
  show ?thesis
    unfolding m e by (intro conjI) (simp_all add: d p f4 f2 c)
qed


subsection \<open>The inspector as a whole\<close>

lemma listed_nan_record:
  "list_checkpoints (\<lambda>p. Directory [''val_loss=nan-accuracy=0.9-f1=0.9.ckpt'']) ''checkpoints'' =
     ([], Inr [\<lparr>filename = ''val_loss=nan-accuracy=0.9-f1=0.9.ckpt'',
                path = ''checkpoints/val_loss=nan-accuracy=0.9-f1=0.9.ckpt'',
                metrics = [(''val_loss'', PStr ''nan''),
                           (''accuracy'', PFloat (Fin (8106479329266893 / 9007199254740992))),
                           (''f1'', PFloat (Fin (8106479329266893 / 9007199254740992)))]\<rparr>])"
  by (simp add: listing_eval extract_eval)

lemma verdict_nan_record:
  "verdict_of [(''val_loss'', PStr ''nan''),
               (''accuracy'', PFloat (Fin (8106479329266893 / 9007199254740992))),
               (''f1'', PFloat (Fin (8106479329266893 / 9007199254740992)))] = Inl TypeError"
  by (simp add: verdict_of_def expected_results_def deviation_def difference_def
      float_operand_def)

lemma snd_in_sequence_prints: "snd (in_sequence (prints out # rest)) = snd (in_sequence rest)"
  by (simp add: prints_def)

lemma snd_in_sequence_raised: "snd r = Inl e \<Longrightarrow> snd (in_sequence (r # rest)) = Inl e"
  by (cases r) simp

lemma snd_in_sequence_returned:
  "snd r = Inr u \<Longrightarrow> snd (in_sequence (r # rest)) = snd (in_sequence rest)"
  by (cases r) simp

lemma snd_compare_metric_number:
  "float_operand (the (map_of m k)) = Inr a \<Longrightarrow> q \<noteq> 0 \<Longrightarrow>
   snd (compare_metric m (k, Fin q)) = Inr ()"
  by (cases "fl_sub a (Fin q)")
     (auto simp: compare_metric_def percentage_def prints_def)

lemma snd_compare_metric_other:
  "\<not> is_number (map_of m k) \<Longrightarrow> snd (compare_metric m (k, e)) = Inr ()"
  by (simp add: compare_metric_def prints_def)

text \<open>
  Claim C7 does not hold of the code.  A file name that gives \<^verbatim>\<open>val_loss\<close> a value that
  stays a string (\<^verbatim>\<open>nan\<close> is how a diverged loss is written) next to \<^verbatim>\<open>accuracy\<close> and
  \<^verbatim>\<open>f1\<close> passes the comparison loop, which tests the type of each value, and reaches the
  arithmetic of the verdict, which does not: \<^verbatim>\<open>TypeError\<close> leaves \<^verbatim>\<open>main\<close> and the
  exit status is 1.  Two files, one with such a loss and one with a numeric loss, make
  \<^verbatim>\<open>sorted\<close> raise the same exception in \<open>list_checkpoints\<close>.
\<close>

theorem main_raises_on_string_metric:
  "snd (main float_repr (\<lambda>p. Directory [''val_loss=nan-accuracy=0.9-f1=0.9.ckpt''])) = Inl TypeError
   \<and> exit_status (main float_repr (\<lambda>p. Directory [''val_loss=nan-accuracy=0.9-f1=0.9.ckpt''])) = 1
   \<and> snd (main float_repr (\<lambda>p. Directory [''val_loss=nan.ckpt'', ''val_loss=0.5.ckpt''])) = Inl TypeError
   \<and> exit_status (main float_repr (\<lambda>p. Directory [''val_loss=nan.ckpt'', ''val_loss=0.5.ckpt''])) = 1"
proof -
  let ?m = "[(''val_loss'', PStr ''nan''),
             (''accuracy'', PFloat (Fin (8106479329266893 / 9007199254740992))),
             (''f1'', PFloat (Fin (8106479329266893 / 9007199254740992)))]"
  have e1: "fl_round (3504 / 10000) = Fin (6312245237722487 / 18014398509481984)"
    and e2: "fl_round (846 / 1000) = Fin (7620090569510879 / 9007199254740992)"
    and e3: "fl_round (893 / 1000) = Fin (4021714467241853 / 4503599627370496)"
    by (simp_all add: fl_eval)
  have c1: "snd (compare_metric ?m (''val_loss'', Fin (6312245237722487 / 18014398509481984))) = Inr ()"
    by (rule snd_compare_metric_other) (simp add: is_number_def)
  have c2: "snd (compare_metric ?m (''accuracy'', Fin (7620090569510879 / 9007199254740992))) = Inr ()"
    by (rule snd_compare_metric_number) (simp_all add: float_operand_def)
  have c3: "snd (compare_metric ?m (''f1'', Fin (4021714467241853 / 4503599627370496))) = Inr ()"
    by (rule snd_compare_metric_number) (simp_all add: float_operand_def)
  have v: "snd (print_verdict ?m) = Inl TypeError"
    by (simp add: print_verdict_def verdict_nan_record)
  have "snd (best_checkpoint_analysis
         \<lparr>filename = ''val_loss=nan-accuracy=0.9-f1=0.9.ckpt'',
          path = ''checkpoints/val_loss=nan-accuracy=0.9-f1=0.9.ckpt'', metrics = ?m\<rparr>) =
        Inl TypeError"
    unfolding best_checkpoint_analysis_def expected_results_def e1 e2 e3
    by (simp add: snd_in_sequence_prints snd_in_sequence_returned [OF c1]
        snd_in_sequence_returned [OF c2] snd_in_sequence_returned [OF c3]
        snd_in_sequence_raised [OF v])
  then have a: "snd (main float_repr (\<lambda>p. Directory [''val_loss=nan-accuracy=0.9-f1=0.9.ckpt''])) =
      Inl TypeError"
    by (simp add: main_def listed_nan_record report_def snd_in_sequence_prints
        snd_in_sequence_raised)
  have "snd (list_checkpoints (\<lambda>p. Directory [''val_loss=nan.ckpt'', ''val_loss=0.5.ckpt''])
          ''checkpoints'') = Inl TypeError"
    by (simp add: listing_eval extract_eval)
  then have b: "snd (main float_repr (\<lambda>p. Directory [''val_loss=nan.ckpt'', ''val_loss=0.5.ckpt''])) =
      Inl TypeError"
    by (simp add: main_def)
  from a b show ?thesis by (simp add: exit_status_def)
qed

subsection \<open>The comparison table\<close>

text \<open>
  Claim C10.  The table that \<open>print_comparison_table\<close> prints, and the exception that
  may leave it, depend on the entry \<^verbatim>\<open>docker\<close> of its argument only: two arguments that
  agree on that entry (or both lack it) give the same result.
\<close>

theorem comparison_table_depends_on_docker_only:
  "environments1 ''docker'' = environments2 ''docker'' \<Longrightarrow>
   print_comparison_table float_repr environments1 =
   print_comparison_table float_repr environments2"
  by (simp add: print_comparison_table_def)

theorem comparison_table_depends_on_docker_only_witness:
  "print_comparison_table (\<lambda>f. [])
     [''docker'' \<mapsto> [(''val_loss'', PInt 1)], ''local'' \<mapsto> [(''val_loss'', PInt 2)]] =
   print_comparison_table (\<lambda>f. [])
     [''docker'' \<mapsto> [(''val_loss'', PInt 1)], ''colab'' \<mapsto> [(''accuracy'', PStr ''high'')]]"
  using comparison_table_depends_on_docker_only
    [of "[''docker'' \<mapsto> [(''val_loss'', PInt 1)], ''local'' \<mapsto> [(''val_loss'', PInt 2)]]"
        "[''docker'' \<mapsto> [(''val_loss'', PInt 1)], ''colab'' \<mapsto> [(''accuracy'', PStr ''high'')]]"
        "\<lambda>f. []"]
  by simp


subsection \<open>The command line of the training script\<close>

lemma task_name_option:
  "parse_optional ''--task_name'' = Option (Store Task_name) ''--task_name'' None None"
  by (simp add: argparse_eval)

text \<open>
  The parser on command lines of which the outcome is known from \<^verbatim>\<open>argparse\<close>: the
  separator \<^verbatim>\<open>--\<close> is left over and is no value of an option, a help option with an
  explicit argument is an error, and characters glued to \<^verbatim>\<open>-h\<close> are read as further
  one-letter options after the help has been collected.
\<close>

lemma parse_args_examples:
  "parse_args [''--''] = Inl 2"
  "parse_args [''--task_name'', ''--'', ''mrpc''] = Inl 2"
  "parse_args [''--help=h''] = Inl 2"
  "parse_args [''--he=h''] = Inl 2"
  "parse_args [''-h=x''] = Inl 2"
  "parse_args [''-h-x''] = Inl 2"
  "parse_args [''-hx''] = Inl 0"
  "parse_args [''-hhx''] = Inl 0"
  "parse_args [''-hh=x''] = Inl 2"
  "parse_args [''--l'', ''1''] = Inl 2"
  "parse_args [''extra'', ''--hel''] = Inl 0"
  "parse_args [''--task_name=cola'', ''--ep'', ''4''] =
     Inr (default_args\<lparr>task_name := ''cola'', epochs := 4\<rparr>)"
  by (simp_all add: parse_args_def argparse_eval parse_eval)

lemma store_bad_task: "v \<notin> set task_choices \<Longrightarrow> store Task_name v a = None"
  by simp

lemma glued_flags_status: "glued_flags e = 0 \<or> glued_flags e = 2"
  by (induction e) auto

lemma consume_task_name_next:
  "v \<notin> set task_choices \<Longrightarrow> consume (''--task_name'' # v # post) leftover a = Inl 2"
  by (simp add: task_name_option)

lemma consume_nil_status: "consume [] leftover a \<noteq> Inl 0"
  by simp

text \<open>
  With an invalid task name after them, the strings \<open>pre\<close> decide the exit status: it is
  0 when they make the parser print the help, and 2 otherwise.
\<close>

lemma consume_invalid_task_name:
  assumes "v \<notin> set task_choices"
  shows "consume (pre @ ''--task_name'' # v # post) leftover a =
           Inl (if consume pre leftover a = Inl 0 then 0 else 2)"
proof (induction pre arbitrary: leftover a rule: length_induct)
  case (1 pre)
  note IH = "1.IH" [rule_format]
  show ?case
  proof (cases pre)
    case Nil
    then show ?thesis
      using consume_task_name_next [OF assms, of post leftover a] by simp
  next
    case (Cons s ps)
    have ps: "consume (ps @ ''--task_name'' # v # post) l b =
        Inl (if consume ps l b = Inl 0 then 0 else 2)" for l b
      using IH [of ps l b] Cons by simp
    show ?thesis
    proof (cases "s = ''--''")
      case True
      with Cons show ?thesis by simp
    next
      case False
      show ?thesis
      proof (cases "parse_optional s")
        case Argument
        with Cons False ps show ?thesis by simp
      next
        case Unknown
        with Cons False ps show ?thesis by simp
      next
        case Ambiguous
        with Cons False show ?thesis by simp
      next
        case (Option act os sep x)
        show ?thesis
        proof (cases act)
          case Help
          with Option Cons False glued_flags_status [of "the x"] show ?thesis
            by (cases x) auto
        next
          case (Store d)
          show ?thesis
          proof (cases x)
            case (Some y)
            with Store Option Cons False ps show ?thesis
              by (simp split: option.splits)
          next
            case None
            show ?thesis
            proof (cases ps)
              case Nil
              with None Store Option Cons False show ?thesis
                by (simp add: task_name_option)
            next
              case (Cons q qs)
              have qs: "consume (qs @ ''--task_name'' # v # post) l b =
                  Inl (if consume qs l b = Inl 0 then 0 else 2)" for l b
                using IH [of qs l b] Cons \<open>pre = s # ps\<close> by simp
              from Cons None Store Option \<open>pre = s # ps\<close> False qs show ?thesis
                by (simp split: option.splits)
            qed
          qed
        qed
      qed
    qed
  qed
qed

lemma ambiguous_option_append: "ambiguous_option pre \<Longrightarrow> ambiguous_option (pre @ rest)"
  by (auto simp: ambiguous_option_def list_ex_iff takeWhile_append dest: set_takeWhileD)

lemma parse_args_invalid_task_name:
  assumes "v \<notin> set task_choices"
  shows "parse_args (pre @ ''--task_name'' # v # post) =
           Inl (if parse_args pre = Inl 0
                   \<and> \<not> ambiguous_option (pre @ ''--task_name'' # v # post) then 0 else 2)"
proof (cases "ambiguous_option (pre @ ''--task_name'' # v # post)")
  case True
  then show ?thesis by (simp add: parse_args_def)
next
  case False
  with ambiguous_option_append have "\<not> ambiguous_option pre" by blast
  with False show ?thesis
    using consume_invalid_task_name [OF assms, of pre post False default_args]
    by (simp add: parse_args_def)
qed

text \<open>The help is printed only at a help flag.\<close>

lemma consume_help_flag:
  "consume ts leftover a = Inl 0 \<Longrightarrow> \<exists>h \<in> set ts. is_help_flag h"
proof (induction ts arbitrary: leftover a rule: length_induct)
  case (1 ts)
  note IH = "1.IH" [rule_format]
  note prem = "1.prems"
  show ?case
  proof (cases ts)
    case Nil
    with prem show ?thesis by (simp split: if_splits)
  next
    case (Cons s ps)
    have ps: "consume ps l b = Inl 0 \<Longrightarrow> \<exists>h \<in> set ts. is_help_flag h" for l b
      using IH [of ps l b] Cons by auto
    show ?thesis
    proof (cases "parse_optional s")
      case Argument
      with Cons prem ps show ?thesis by (simp split: if_splits)
    next
      case Unknown
      with Cons prem ps show ?thesis by (simp split: if_splits)
    next
      case Ambiguous
      with Cons prem show ?thesis by (simp split: if_splits)
    next
      case (Option act os sep x)
      show ?thesis
      proof (cases act)
        case Help
        with Option Cons show ?thesis by (simp add: is_help_flag_def)
      next
        case (Store d)
        show ?thesis
        proof (cases x)
          case (Some y)
          with Store Option Cons prem ps show ?thesis
            by (auto split: if_splits option.splits)
        next
          case None
          show ?thesis
          proof (cases ps)
            case Nil
            with None Store Option Cons prem show ?thesis by (simp split: if_splits)
          next
            case (Cons q qs)
            have qs: "consume qs l b = Inl 0 \<Longrightarrow> \<exists>h \<in> set ts. is_help_flag h" for l b
              using IH [of qs l b] Cons \<open>ts = s # ps\<close> by auto
            from Cons None Store Option \<open>ts = s # ps\<close> prem qs show ?thesis
              by (auto split: if_splits option.splits)
          qed
        qed
      qed
    qed
  qed
qed

lemma parse_args_help_flag: "parse_args argv = Inl 0 \<Longrightarrow> \<exists>h \<in> set argv. is_help_flag h"
  using consume_help_flag [of argv False default_args]
  by (simp add: parse_args_def split: if_splits)

lemma store_task_name:
  "store d v a = Some a' \<Longrightarrow> task_name a \<in> set task_choices \<Longrightarrow>
   task_name a' \<in> set task_choices"
  by (cases d) (auto simp: store_int_def store_float_def split: if_splits option.splits)

lemma consume_task_name:
  "consume ts l a = Inr a' \<Longrightarrow> task_name a \<in> set task_choices \<Longrightarrow>
   task_name a' \<in> set task_choices"
proof (induction ts arbitrary: l a rule: length_induct)
  case (1 ts)
  note IH = "1.IH" [rule_format]
  note prem = "1.prems"
  show ?case
  proof (cases ts)
    case Nil
    with prem show ?thesis by (simp split: if_splits)
  next
    case (Cons s ps)
    have ps: "consume ps k b = Inr a' \<Longrightarrow> task_name b \<in> set task_choices \<Longrightarrow>
        task_name a' \<in> set task_choices" for k b
      using IH [of ps k b] Cons by simp
    show ?thesis
    proof (cases "parse_optional s")
      case Argument
      with Cons prem ps show ?thesis by (simp split: if_splits)
    next
      case Unknown
      with Cons prem ps show ?thesis by (simp split: if_splits)
    next
      case Ambiguous
      with Cons prem show ?thesis by (simp split: if_splits)
    next
      case (Option act os sep x)
      show ?thesis
      proof (cases act)
        case Help
        with Option Cons prem show ?thesis
          by (cases x) (simp_all split: if_splits)
      next
        case (Store d)
        show ?thesis
        proof (cases x)
          case (Some y)
          from prem(1) Cons Option Store Some obtain b where
            b: "store d y a = Some b" and r: "consume ps l b = Inr a'"
            by (auto split: option.splits if_splits)
          from b prem(2) have "task_name b \<in> set task_choices"
            by (rule store_task_name)
          with r show ?thesis by (rule ps)
        next
          case None
          show ?thesis
          proof (cases ps)
            case Nil
            with None Store Option Cons prem show ?thesis by (simp split: if_splits)
          next
            case (Cons q qs)
            have qs: "consume qs k b = Inr a' \<Longrightarrow> task_name b \<in> set task_choices \<Longrightarrow>
                task_name a' \<in> set task_choices" for k b
              using IH [of qs k b] Cons \<open>ts = s # ps\<close> by simp
            from prem(1) Cons None Store Option \<open>ts = s # ps\<close> obtain b where
              b: "store d q a = Some b" and r: "consume qs l b = Inr a'"
              by (auto split: option.splits if_splits)
            from b prem(2) have "task_name b \<in> set task_choices"
              by (rule store_task_name)
            with r show ?thesis by (rule qs)
          qed
        qed
      qed
    qed
  qed
qed

lemma parse_args_task_name:
  "parse_args argv = Inr a \<Longrightarrow> task_name a \<in> set task_choices"
  using consume_task_name [of argv False default_args a]
  by (simp add: parse_args_def default_args_def task_choices_def split: if_splits)

text \<open>
  Claim C8 says that the parser fails with a usage error.  When a help flag stands
  before the invalid task name, the parser prints the help text at that flag and ends
  the process with status 0.
\<close>

theorem help_before_invalid_task_name_counterexample:
  "train_main quiet_world [''--help'', ''--task_name'', ''bogus''] = ([], Exited 0)"
  by (simp add: train_main_def parse_args_def argparse_eval)

text \<open>
  Claim C8, amended.  When \<^verbatim>\<open>--task_name\<close> is followed by a string that is not one of the
  nine task names, the argument parser ends the process before \<^verbatim>\<open>main\<close> does anything
  else.  The exit status is 0, after the help text, exactly when the strings that stand
  before this \<^verbatim>\<open>--task_name\<close> make the parser print the help by themselves and no string
  of the command line before a \<^verbatim>\<open>--\<close> is an ambiguous abbreviation, which requires a
  help flag among those strings; otherwise it is the status 2 of a usage error.  For
  every command line, an event of the run (so any wiring of data module, model or
  trainer) implies that the arguments were parsed and the task name is one of the nine.
\<close>

theorem invalid_task_name_exits_before_wiring:
  assumes "v \<notin> set task_choices"
  shows "train_main w (pre @ ''--task_name'' # v # post) =
           ([], Exited (if parse_args pre = Inl 0
                           \<and> \<not> ambiguous_option (pre @ ''--task_name'' # v # post)
                        then 0 else 2))
         \<and> (parse_args pre = Inl 0 \<longrightarrow> (\<exists>h \<in> set pre. is_help_flag h))
         \<and> (\<forall>argv e. e \<in> set (fst (train_main w argv)) \<longrightarrow>
               (\<exists>a. parse_args argv = Inr a \<and> task_name a \<in> set task_choices))"
proof (intro conjI)
  show "train_main w (pre @ ''--task_name'' # v # post) =
           ([], Exited (if parse_args pre = Inl 0
                           \<and> \<not> ambiguous_option (pre @ ''--task_name'' # v # post)
                        then 0 else 2))"
    by (simp add: train_main_def parse_args_invalid_task_name [OF assms, of pre post])
next
  show "parse_args pre = Inl 0 \<longrightarrow> (\<exists>h \<in> set pre. is_help_flag h)"
    using parse_args_help_flag by blast
next
  show "\<forall>argv e. e \<in> set (fst (train_main w argv)) \<longrightarrow>
               (\<exists>a. parse_args argv = Inr a \<and> task_name a \<in> set task_choices)"
  proof (intro allI impI)
    fix argv e
    assume e: "e \<in> set (fst (train_main w argv))"
    show "\<exists>a. parse_args argv = Inr a \<and> task_name a \<in> set task_choices"
    proof (cases "parse_args argv")
      case (Inl c)
      with e show ?thesis by (simp add: train_main_def)
    next
      case (Inr a)
      then show ?thesis by (simp add: parse_args_task_name)
    qed
  qed
qed

theorem invalid_task_name_exits_before_wiring_witness:
  "train_main quiet_world [''--task_name'', ''bogus''] = ([], Exited 2)
   \<and> train_main quiet_world [''--epochs'', ''5'', ''--task_name'', ''glue'', ''--seed'', ''1''] =
       ([], Exited 2)
   \<and> train_main quiet_world [''--task_name'', ''--'', ''mrpc''] = ([], Exited 2)
   \<and> train_main quiet_world [''--epochs'', ''5'', ''-h'', ''--task_name'', ''bogus''] =
       ([], Exited 0)
   \<and> train_main quiet_world [''--epochs'', ''abc'', ''--help'', ''--task_name'', ''bogus''] =
       ([], Exited 2)
   \<and> train_main quiet_world [''--help'', ''--task_name'', ''bogus'', ''--w''] = ([], Exited 2)"
proof -
  have v: "''bogus'' \<notin> set task_choices" "''glue'' \<notin> set task_choices"
    "''--'' \<notin> set task_choices"
    by (simp_all add: task_choices_def)
  have p: "parse_args [] \<noteq> Inl 0"
    "parse_args [''--epochs'', ''5''] \<noteq> Inl 0"
    "parse_args [''--epochs'', ''5'', ''-h''] = Inl 0"
    "parse_args [''--epochs'', ''abc'', ''--help''] \<noteq> Inl 0"
    by (simp_all add: parse_args_def argparse_eval parse_eval)
  have q: "\<not> ambiguous_option [''--epochs'', ''5'', ''-h'', ''--task_name'', ''bogus'']"
    "ambiguous_option [''--help'', ''--task_name'', ''bogus'', ''--w'']"
    by (simp_all add: argparse_eval)
  from invalid_task_name_exits_before_wiring [OF v(1), of quiet_world "[]" "[]"] p(1)
  have a: "train_main quiet_world [''--task_name'', ''bogus''] = ([], Exited 2)"
    by simp
  from invalid_task_name_exits_before_wiring [OF v(2), of quiet_world "[''--epochs'', ''5'']"
      "[''--seed'', ''1'']"] p(2)
  have b: "train_main quiet_world [''--epochs'', ''5'', ''--task_name'', ''glue'', ''--seed'', ''1''] =
       ([], Exited 2)"
    by simp
  from invalid_task_name_exits_before_wiring [OF v(3), of quiet_world "[]" "[''mrpc'']"] p(1)
  have c: "train_main quiet_world [''--task_name'', ''--'', ''mrpc''] = ([], Exited 2)"
    by simp
  from invalid_task_name_exits_before_wiring [OF v(1), of quiet_world
      "[''--epochs'', ''5'', ''-h'']" "[]"] p(3) q(1)
  have d: "train_main quiet_world [''--epochs'', ''5'', ''-h'', ''--task_name'', ''bogus''] =
       ([], Exited 0)"
    by simp
  from invalid_task_name_exits_before_wiring [OF v(1), of quiet_world
      "[''--epochs'', ''abc'', ''--help'']" "[]"] p(4)
  have e: "train_main quiet_world [''--epochs'', ''abc'', ''--help'', ''--task_name'', ''bogus''] =
       ([], Exited 2)"
    by simp
  from invalid_task_name_exits_before_wiring [OF v(1), of quiet_world "[''--help'']" "[''--w'']"]
    q(2)
  have f: "train_main quiet_world [''--help'', ''--task_name'', ''bogus'', ''--w''] = ([], Exited 2)"
    by simp
  from a b c d e f show ?thesis by (intro conjI)
qed

subsection \<open>The credential file\<close>

lemma perform_no_raise: "\<forall>e \<in> set es. \<not> r e \<Longrightarrow> perform r es = (es, None)"
  by (induction es) simp_all

lemma perform_head: "\<exists>t. fst (perform r (e # es)) = e # t"
  by simp

text \<open>
  Claim C9 says that the file is written whenever the key variable is set.  The guard
  tests the value of the variable: a variable that is set to the empty string does not
  pass it.
\<close>

theorem empty_api_key_counterexample:
  "environ (quiet_world\<lparr>environ := [''WANDB_API_KEY'' \<mapsto> []]\<rparr>) ''WANDB_API_KEY'' = Some []
   \<and> environ (quiet_world\<lparr>environ := [''WANDB_API_KEY'' \<mapsto> []]\<rparr>) ''WANDB_MODE'' \<noteq> Some ''offline''
   \<and> credential_bootstrap (quiet_world\<lparr>environ := [''WANDB_API_KEY'' \<mapsto> []]\<rparr>) = []"
  by (simp add: credential_bootstrap_def wandb_login_wanted_def)

lemma write_netrc_opens: "Open_for_writing (netrc_path w) \<in> set (write_netrc w k)"
  by (auto simp: write_netrc_def split: prod.splits option.splits if_splits)

lemma write_netrc_no_raise:
  assumes "\<forall>e \<in> set (Open_for_writing (netrc_path w) # map Write_text (netrc_lines k)
              @ [Close_file, Chmod (netrc_path w) owner_only]). \<not> raises w e"
  shows "write_netrc w k =
     Open_for_writing (netrc_path w) # map Write_text (netrc_lines k)
       @ [Close_file, Chmod (netrc_path w) owner_only, Print configured_message]"
proof -
  have 1: "perform (raises w) (Open_for_writing (netrc_path w) # map Write_text (netrc_lines k)) =
      (Open_for_writing (netrc_path w) # map Write_text (netrc_lines k), None)"
    using assms by (intro perform_no_raise) auto
  have 2: "perform (raises w) [Close_file, Chmod (netrc_path w) owner_only, Print configured_message] =
      ([Close_file, Chmod (netrc_path w) owner_only, Print configured_message], None)"
    using assms by (simp add: is_print_def)
  show ?thesis
    by (simp only: write_netrc_def 1 2) simp
qed

lemma write_netrc_raise:
  assumes "\<exists>e \<in> set (Open_for_writing (netrc_path w) # map Write_text (netrc_lines k)
              @ [Close_file, Chmod (netrc_path w) owner_only]). raises w e"
  shows "\<exists>e \<in> set (Open_for_writing (netrc_path w) # map Write_text (netrc_lines k)
              @ [Close_file, Chmod (netrc_path w) owner_only]).
           raises w e \<and> last (write_netrc w k) = Print (failure_message w e)
           \<and> Print configured_message \<notin> set (write_netrc w k)"
  using assms
  by (auto simp: write_netrc_def netrc_lines_def is_print_def configured_message_def
      failure_message_def check_mark_def warn_mark_def)


lemma train_main_continues:
  assumes "parse_args argv = Inr a" and "\<forall>e \<in> set (preparation a). \<not> raises w e"
  shows "\<exists>u r. train_main w argv =
     (preparation a @ credential_bootstrap w
        @ Wandb_logger_init (wandb_project a) (run_name w a) # u, r)"
proof -
  have p: "perform (raises w) (preparation a) = (preparation a, None)"
    using assms(2) by (rule perform_no_raise)
  obtain t x where w: "perform (raises w) (wiring w a) = (t, x)"
    by (cases "perform (raises w) (wiring w a)")
  have "\<exists>u. fst (perform (raises w) (wiring w a)) =
      Wandb_logger_init (wandb_project a) (run_name w a) # u"
    unfolding wiring_def by (rule perform_head)
  with w obtain u where u: "t = Wandb_logger_init (wandb_project a) (run_name w a) # u"
    by auto
  show ?thesis
    by (cases x) (simp_all add: train_main_def assms(1) p w u)
qed

text \<open>
  Claim C9, amended.  The script starts writing the credential file exactly when the key
  variable is set to a non-empty value and the mode variable is not \<^verbatim>\<open>offline\<close>.  When
  none of the file operations raises, the three lines are written, the file is closed
  and its mode is set to \<^verbatim>\<open>0o600\<close>, and the confirmation is printed.  When one of them
  raises, the last thing the block does is to print the warning with the text of that
  exception.  In either case the run goes on with the set-up of the logger.
\<close>

theorem credential_file_bootstrap:
  "(Open_for_writing (netrc_path w) \<in> set (credential_bootstrap w) \<longleftrightarrow>
      (\<exists>k. environ w ''WANDB_API_KEY'' = Some k \<and> k \<noteq> []
           \<and> environ w ''WANDB_MODE'' \<noteq> Some ''offline''))
   \<and> (wandb_login_wanted w \<longrightarrow> (\<forall>e \<in> set (file_operations w). \<not> raises w e) \<longrightarrow>
        credential_bootstrap w = file_operations w @ [Print configured_message])
   \<and> (wandb_login_wanted w \<longrightarrow> (\<exists>e \<in> set (file_operations w). raises w e) \<longrightarrow>
        (\<exists>e \<in> set (file_operations w).
           raises w e \<and> last (credential_bootstrap w) = Print (failure_message w e)
           \<and> Print configured_message \<notin> set (credential_bootstrap w)))
   \<and> (\<forall>argv a. parse_args argv = Inr a \<longrightarrow> (\<forall>e \<in> set (preparation a). \<not> raises w e) \<longrightarrow>
        (\<exists>u r. train_main w argv =
           (preparation a @ credential_bootstrap w
              @ Wandb_logger_init (wandb_project a) (run_name w a) # u, r)))"
proof (intro conjI)
  show "Open_for_writing (netrc_path w) \<in> set (credential_bootstrap w) \<longleftrightarrow>
      (\<exists>k. environ w ''WANDB_API_KEY'' = Some k \<and> k \<noteq> []
           \<and> environ w ''WANDB_MODE'' \<noteq> Some ''offline'')"
    by (auto simp: credential_bootstrap_def wandb_login_wanted_def write_netrc_opens
        split: option.splits)
next
  show "wandb_login_wanted w \<longrightarrow> (\<forall>e \<in> set (file_operations w). \<not> raises w e) \<longrightarrow>
        credential_bootstrap w = file_operations w @ [Print configured_message]"
    using write_netrc_no_raise [of w "the (environ w ''WANDB_API_KEY'')"]
    by (simp add: credential_bootstrap_def file_operations_def)
next
  show "wandb_login_wanted w \<longrightarrow> (\<exists>e \<in> set (file_operations w). raises w e) \<longrightarrow>
        (\<exists>e \<in> set (file_operations w).
           raises w e \<and> last (credential_bootstrap w) = Print (failure_message w e)
           \<and> Print configured_message \<notin> set (credential_bootstrap w))"
    using write_netrc_raise [of w "the (environ w ''WANDB_API_KEY'')"]
    by (simp add: credential_bootstrap_def file_operations_def)
next
  show "\<forall>argv a. parse_args argv = Inr a \<longrightarrow> (\<forall>e \<in> set (preparation a). \<not> raises w e) \<longrightarrow>
        (\<exists>u r. train_main w argv =
           (preparation a @ credential_bootstrap w
              @ Wandb_logger_init (wandb_project a) (run_name w a) # u, r))"
    using train_main_continues by blast
qed

theorem credential_file_bootstrap_witness:
  "credential_bootstrap (quiet_world\<lparr>environ := [''WANDB_API_KEY'' \<mapsto> ''abc'']\<rparr>) =
     [Open_for_writing ''/root/.netrc'',
      Write_text (''machine api.wandb.ai'' @ nl),
      Write_text (''  login user'' @ nl),
      Write_text (''  password abc'' @ nl),
      Close_file,
      Chmod ''/root/.netrc'' owner_only,
      Print configured_message]"
  using credential_file_bootstrap [of "quiet_world\<lparr>environ := [''WANDB_API_KEY'' \<mapsto> ''abc'']\<rparr>"]
  by (simp add: wandb_login_wanted_def file_operations_def quiet_world_def netrc_lines_def)


end
